theory Spec2Isabelle
  imports Complex_Main
begin

section \<open>JavaScript numbers\<close>

text \<open>
  The component computes with JavaScript numbers, the binary64 format of IEEE 754. A
  finite number is modelled by the real it denotes, and every arithmetic operation rounds
  its exact result to the nearest double, ties to the even significand, with gradual
  underflow and with overflow to an infinity. The special values behave as in the
  standard. There is one zero; it stands for \<open>+0\<close>, which is the only zero the divisors
  of this component can take (\<open>1 + x\<close> and \<open>points - 1\<close> are never \<open>-0\<close>).
\<close>

datatype js_number = Fin real | PosInf | NegInf | NaN

text \<open>The nearest integer, a tie going to the even one.\<close>

definition round_half_even :: "real \<Rightarrow> int" where
  "round_half_even q =
     (let f = \<lfloor>q\<rfloor>; r = q - of_int f
      in if r < 1 / 2 then f else if 1 / 2 < r then f + 1
         else if even f then f else f + 1)"

text \<open>
  \<open>binade a\<close> is the exponent of the doubles around the magnitude \<open>a\<close>: the largest \<open>e\<close>
  between \<open>-1022\<close> and \<open>1023\<close> with \<open>2 powi e \<le> a\<close>, and \<open>-1022\<close> in the subnormal range.
  Neighbouring doubles of that binade are \<open>2 powi (e - 52)\<close> apart.
\<close>

fun exp_search :: "real \<Rightarrow> nat \<Rightarrow> int" where
  "exp_search a 0 = - 1022"
| "exp_search a (Suc k) =
     (if 2 powi (int (Suc k) - 1022) \<le> a then int (Suc k) - 1022 else exp_search a k)"

definition binade :: "real \<Rightarrow> int" where
  "binade a = exp_search a 2045"

definition double_limit :: real where
  "double_limit = 2 powi 1024"

text \<open>
  Rounding a real to a double: the magnitude is rounded to a multiple of the spacing of
  its binade; a result that reaches \<open>2 powi 1024\<close> is an infinity. A decimal literal of the
  source denotes the rounding of its value.
\<close>

definition js_round :: "real \<Rightarrow> js_number" where
  "js_round x =
     (let a = \<bar>x\<bar>;
          ulp = 2 powi (binade a - 52);
          y = of_int (round_half_even (a / ulp)) * ulp
      in if double_limit \<le> y then (if 0 < x then PosInf else NegInf)
         else Fin (if 0 \<le> x then y else - y))"

fun js_neg :: "js_number \<Rightarrow> js_number" where
  "js_neg (Fin a) = Fin (- a)"
| "js_neg PosInf = NegInf"
| "js_neg NegInf = PosInf"
| "js_neg NaN = NaN"

fun js_add :: "js_number \<Rightarrow> js_number \<Rightarrow> js_number" where
  "js_add NaN _ = NaN"
| "js_add _ NaN = NaN"
| "js_add (Fin a) (Fin b) = js_round (a + b)"
| "js_add PosInf NegInf = NaN"
| "js_add NegInf PosInf = NaN"
| "js_add PosInf _ = PosInf"
| "js_add _ PosInf = PosInf"
| "js_add NegInf _ = NegInf"
| "js_add _ NegInf = NegInf"

definition js_sub :: "js_number \<Rightarrow> js_number \<Rightarrow> js_number" where
  "js_sub a b = js_add a (js_neg b)"

text \<open>The sign of an infinite product or quotient: \<open>Infinity * 0\<close> is \<open>NaN\<close>.\<close>

definition js_inf_times :: "bool \<Rightarrow> real \<Rightarrow> js_number" where
  "js_inf_times positive b =
     (if b = 0 then NaN else if (0 < b) = positive then PosInf else NegInf)"

fun js_mul :: "js_number \<Rightarrow> js_number \<Rightarrow> js_number" where
  "js_mul NaN _ = NaN"
| "js_mul _ NaN = NaN"
| "js_mul (Fin a) (Fin b) = js_round (a * b)"
| "js_mul PosInf (Fin b) = js_inf_times True b"
| "js_mul NegInf (Fin b) = js_inf_times False b"
| "js_mul (Fin a) PosInf = js_inf_times True a"
| "js_mul (Fin a) NegInf = js_inf_times False a"
| "js_mul PosInf PosInf = PosInf"
| "js_mul NegInf NegInf = PosInf"
| "js_mul PosInf NegInf = NegInf"
| "js_mul NegInf PosInf = NegInf"

fun js_div :: "js_number \<Rightarrow> js_number \<Rightarrow> js_number" where
  "js_div NaN _ = NaN"
| "js_div _ NaN = NaN"
| "js_div (Fin a) (Fin b) =
     (if b \<noteq> 0 then js_round (a / b)
      else if 0 < a then PosInf else if a < 0 then NegInf else NaN)"
| "js_div (Fin a) PosInf = Fin 0"
| "js_div (Fin a) NegInf = Fin 0"
| "js_div PosInf (Fin b) = (if 0 \<le> b then PosInf else NegInf)"
| "js_div NegInf (Fin b) = (if 0 \<le> b then NegInf else PosInf)"
| "js_div PosInf PosInf = NaN"
| "js_div PosInf NegInf = NaN"
| "js_div NegInf PosInf = NaN"
| "js_div NegInf NegInf = NaN"

text \<open>\<open>a > b\<close>: false as soon as one side is \<open>NaN\<close>.\<close>

fun js_gt :: "js_number \<Rightarrow> js_number \<Rightarrow> bool" where
  "js_gt NaN _ = False"
| "js_gt _ NaN = False"
| "js_gt (Fin a) (Fin b) = (b < a)"
| "js_gt PosInf PosInf = False"
| "js_gt PosInf _ = True"
| "js_gt _ PosInf = False"
| "js_gt NegInf _ = False"
| "js_gt _ NegInf = True"

text \<open>\<open>Math.max(a, b)\<close>: \<open>NaN\<close> as soon as one argument is \<open>NaN\<close>.\<close>

fun Math_max :: "js_number \<Rightarrow> js_number \<Rightarrow> js_number" where
  "Math_max NaN _ = NaN"
| "Math_max _ NaN = NaN"
| "Math_max a b = (if js_gt b a then b else a)"

section \<open>Data model\<close>

text \<open>
  Modelled from the spec: the type declarations of \<open>types/tokenAnalytics\<close> and
  \<open>types/solana\<close> are not part of the sources at hand. The records below carry the
  fields the component reads, with the types of the spec's data model: prices, the
  24h change and liquidity are numbers, the trade counts are integers, the logo is
  optional.
\<close>

record TokenHolding =
  mint :: string
  symbol :: string
  name :: string
  logoUri :: "string option"

record TokenDetails =
  mint :: string
  symbol :: string
  name :: string
  logoUri :: "string option"
  price :: js_number
  priceChange24h :: js_number
  marketCap :: "js_number option"
  status :: string

record TopHolder =
  address :: string
  percentage :: js_number

record SecurityAnalysis =
  riskScore :: int
  riskLevel :: string
  description :: string

record RealTradeData =
  liquidity :: js_number
  volume24h :: js_number
  buys24h :: int
  sells24h :: int

record TokenAnalytics =
  details :: TokenDetails
  security :: SecurityAnalysis
  topHolders :: "TopHolder list"
  tradeData :: RealTradeData
  totalHolders :: int

record PricePoint =
  timestamp :: int
  price :: js_number
  time :: string

datatype TimeFrame = TF_1H | TF_1D | TF_1W | TF_1M | TF_YTD | TF_ALL

text \<open>The properties of the component that its logic reads (the callbacks are left out).\<close>

record TokenDetailsModalProps =
  isOpen :: bool
  tokenMint :: "string option"
  tokenSymbol :: "string option"
  existingTokenData :: "TokenHolding option"

text \<open>The React state of the component, one field for each \<open>useState\<close>.\<close>

record modal_state =
  isAnimating :: bool
  analytics :: "TokenAnalytics option"
  loading :: bool
  error :: "string option"
  selectedTimeFrame :: TimeFrame

definition initial_state :: modal_state where
  "initial_state =
     \<lparr>isAnimating = False, analytics = None, loading = False, error = None,
      selectedTimeFrame = TF_1D\<rparr>"

section \<open>The ambient clock and random source\<close>

text \<open>
  \<open>Date.now()\<close> and \<open>Math.random()\<close> read the outside world. The world is passed
  explicitly: \<open>clock w k\<close> is what the \<open>k\<close>-th call of \<open>Date.now()\<close> returns (milliseconds,
  an integer), \<open>draws w k\<close> what the \<open>k\<close>-th call of \<open>Math.random()\<close> returns, and the two
  counters say how many calls have been made.
\<close>

record world =
  clock :: "nat \<Rightarrow> int"
  draws :: "nat \<Rightarrow> real"
  now_calls :: nat
  random_calls :: nat

definition Date_now :: "world \<Rightarrow> int \<times> world" where
  "Date_now w = (clock w (now_calls w), w\<lparr>now_calls := Suc (now_calls w)\<rparr>)"

definition Math_random :: "world \<Rightarrow> js_number \<times> world" where
  "Math_random w = (Fin (draws w (random_calls w)), w\<lparr>random_calls := Suc (random_calls w)\<rparr>)"

section \<open>The series reconstructor: \<open>chartData\<close>\<close>

definition points :: nat where
  "points = 24"

text \<open>\<open>const startPrice = currentPrice / (1 + priceChange24h / 100)\<close>\<close>

definition startPrice :: "js_number \<Rightarrow> js_number \<Rightarrow> js_number" where
  "startPrice currentPrice change24h =
     js_div currentPrice (js_add (Fin 1) (js_div change24h (Fin 100)))"

text \<open>\<open>const progress = i / (points - 1)\<close>\<close>

definition progress :: "nat \<Rightarrow> js_number" where
  "progress i = js_div (Fin (real i)) (Fin (real (points - 1)))"

text \<open>\<open>const volatility = (Math.random() - 0.5) * 0.02\<close>\<close>

definition volatility :: "js_number \<Rightarrow> js_number" where
  "volatility r = js_mul (js_sub r (Fin 0.5)) (js_round 0.02)"

text \<open>\<open>const trendPrice = startPrice + (currentPrice - startPrice) * progress\<close>\<close>

definition trendPrice :: "js_number \<Rightarrow> js_number \<Rightarrow> nat \<Rightarrow> js_number" where
  "trendPrice start currentPrice i =
     js_add start (js_mul (js_sub currentPrice start) (progress i))"

text \<open>\<open>const finalPrice = trendPrice * (1 + volatility)\<close>\<close>

definition finalPrice :: "js_number \<Rightarrow> js_number \<Rightarrow> js_number" where
  "finalPrice trend vol = js_mul trend (js_add (Fin 1) vol)"

text \<open>
  One turn of the loop: the random draw, then the two readings of the clock made while
  the pushed object is built. The formatting of the label (\<open>toLocaleTimeString\<close>) belongs
  to the runtime and is a parameter.
\<close>

definition chartData_body ::
  "(int \<Rightarrow> string) \<Rightarrow> js_number \<Rightarrow> js_number \<Rightarrow> nat \<Rightarrow> world \<Rightarrow> PricePoint \<times> world" where
  "chartData_body toLocaleTimeString currentPrice start i w =
     (let (r, w1) = Math_random w;
          vol = volatility r;
          trend = trendPrice start currentPrice i;
          final = finalPrice trend vol;
          (t1, w2) = Date_now w1;
          (t2, w3) = Date_now w2
      in (\<lparr>timestamp = t1 - int (points - i) * 60 * 60 * 1000,
           price = Math_max final (js_round 0.0001),
           time = toLocaleTimeString (t2 - int (points - i) * 60 * 60 * 1000)\<rparr>, w3))"

text \<open>\<open>for (let i = 0; i < points; i++) { ... data.push(...) }\<close>\<close>

function chartData_loop ::
  "(int \<Rightarrow> string) \<Rightarrow> js_number \<Rightarrow> js_number \<Rightarrow> nat \<Rightarrow> PricePoint list \<Rightarrow> world
     \<Rightarrow> PricePoint list \<times> world" where
  "chartData_loop toLocaleTimeString currentPrice start i data w =
     (if i < points then
        (let (pt, w') = chartData_body toLocaleTimeString currentPrice start i w
         in chartData_loop toLocaleTimeString currentPrice start (Suc i) (data @ [pt]) w')
      else (data, w))"
  by pat_completeness auto
termination
  by (relation "measure (\<lambda>(f, c, s, i, d, w). points - i)") auto

declare chartData_loop.simps [simp del]

text \<open>
  \<open>advance n w\<close> is the world after \<open>n\<close> turns of the loop (one draw and two readings
  of the clock each), and \<open>nth_point\<close> the point that turn \<open>k\<close> pushes when the loop is
  entered in world \<open>w\<close>.
\<close>

definition advance :: "nat \<Rightarrow> world \<Rightarrow> world" where
  "advance n w = w\<lparr>now_calls := now_calls w + 2 * n, random_calls := random_calls w + n\<rparr>"

definition nth_point ::
  "(int \<Rightarrow> string) \<Rightarrow> js_number \<Rightarrow> js_number \<Rightarrow> world \<Rightarrow> nat \<Rightarrow> PricePoint" where
  "nth_point toLocaleTimeString currentPrice start w k =
     fst (chartData_body toLocaleTimeString currentPrice start k (advance k w))"

text \<open>
  The memoised computation. \<open>selectedTimeFrame\<close> is in the dependency list of the
  \<open>useMemo\<close> and so is an input of the recomputation; the body does not read it.
\<close>

definition chartData ::
  "(int \<Rightarrow> string) \<Rightarrow> TokenAnalytics option \<Rightarrow> TimeFrame \<Rightarrow> world \<Rightarrow> PricePoint list \<times> world" where
  "chartData toLocaleTimeString a selectedTF w =
     (case a of
        None \<Rightarrow> ([], w)
      | Some an \<Rightarrow>
          (let currentPrice = TokenDetails.price (details an);
               change24h = priceChange24h (details an);
               start = startPrice currentPrice change24h
           in chartData_loop toLocaleTimeString currentPrice start 0 [] w))"

section \<open>The header logo\<close>

definition SOL_LOGO_URI :: string where
  "SOL_LOGO_URI =
     ''https://raw.githubusercontent.com/solana-labs/token-list/main/assets/mainnet/So11111111111111111111111111111111111111112/logo.png''"

text \<open>
  An optional string is falsy when it is absent and when it is empty; \<open>a || b\<close> is \<open>a\<close>
  when \<open>a\<close> is truthy and \<open>b\<close> otherwise.
\<close>

definition truthy :: "string option \<Rightarrow> bool" where
  "truthy s = (case s of None \<Rightarrow> False | Some t \<Rightarrow> t \<noteq> [])"

definition js_or :: "string option \<Rightarrow> string option \<Rightarrow> string option" where
  "js_or a b = (if truthy a then a else b)"

text \<open>
  \<open>headerLogo\<close>: the reserved mint is looked up on \<open>existingTokenData\<close>; the result is a
  non-empty string or \<open>null\<close> (\<open>None\<close>).
\<close>

definition headerLogo :: "TokenDetailsModalProps \<Rightarrow> TokenAnalytics option \<Rightarrow> string option" where
  "headerLogo props a =
     (if map_option TokenHolding.mint (existingTokenData props)
           = Some ''So11111111111111111111111111111111111111112''
      then Some SOL_LOGO_URI
      else
        (let fetched = (case a of None \<Rightarrow> None | Some an \<Rightarrow> TokenDetails.logoUri (details an));
             existing = (case existingTokenData props of
                           None \<Rightarrow> None | Some h \<Rightarrow> TokenHolding.logoUri h);
             r = js_or fetched existing
         in if truthy r then r else None))"

section \<open>Fetching the analytics\<close>

text \<open>
  \<open>getTokenAnalytics\<close> is the metrics provider, outside these sources: a call either
  throws (\<open>Inl\<close>) or resolves to a record (\<open>Inr\<close>). \<open>fetch_begin\<close> is what
  \<open>fetchTokenAnalytics\<close> does before it awaits the provider, \<open>fetch_settle\<close> what its
  \<open>try\<close>/\<open>catch\<close>/\<open>finally\<close> does with the outcome.
\<close>

definition fetch_begin :: "modal_state \<Rightarrow> modal_state" where
  "fetch_begin s = s\<lparr>loading := True, error := None\<rparr>"

definition fetch_settle :: "'e + TokenAnalytics \<Rightarrow> modal_state \<Rightarrow> modal_state" where
  "fetch_settle outcome s =
     (case outcome of
        Inr data \<Rightarrow> s\<lparr>analytics := Some data\<rparr>
      | Inl err \<Rightarrow> s\<lparr>error := Some ''Failed to load token data''\<rparr>)
     \<lparr>loading := False\<rparr>"

definition fetchTokenAnalytics ::
  "(string \<Rightarrow> TokenHolding option \<Rightarrow> 'e + TokenAnalytics) \<Rightarrow> TokenDetailsModalProps
     \<Rightarrow> modal_state \<Rightarrow> modal_state" where
  "fetchTokenAnalytics getTokenAnalytics props s =
     (case tokenMint props of
        None \<Rightarrow> s
      | Some m \<Rightarrow>
          if m = [] then s
          else fetch_settle (getTokenAnalytics m (existingTokenData props)) (fetch_begin s))"

text \<open>
  What the scrollable content shows: the spinner, the error with its Retry button (bound
  to \<open>fetchTokenAnalytics\<close>), the details, or nothing.
\<close>

datatype content = Spinner | ErrorRetry string | Details TokenAnalytics | Blank

definition content_view :: "modal_state \<Rightarrow> content" where
  "content_view s =
     (let rest = (case analytics s of Some an \<Rightarrow> Details an | None \<Rightarrow> Blank)
      in if loading s then Spinner
         else (case error s of
                 Some e \<Rightarrow> if e \<noteq> [] then ErrorRetry e else rest
               | None \<Rightarrow> rest))"

section \<open>Rendered fields\<close>

text \<open>
  The formatting helpers (\<open>formatCurrency\<close>, \<open>toLocaleString\<close>) are outside these sources
  and are parameters. The trade counts are integers, and their product with \<open>0.3\<close> is
  taken in exact arithmetic.
\<close>

definition liquidity_field :: "(js_number \<Rightarrow> string) \<Rightarrow> RealTradeData \<Rightarrow> string" where
  "liquidity_field formatCurrency td =
     (if js_gt (liquidity td) (Fin 0) then formatCurrency (liquidity td)
      else ''Failed to load'')"

definition uniqueWallets_field :: "(int \<Rightarrow> string) \<Rightarrow> RealTradeData \<Rightarrow> string" where
  "uniqueWallets_field toLocaleString td =
     (if buys24h td > 0 \<or> sells24h td > 0
      then toLocaleString (max \<lfloor>real_of_int (buys24h td + sells24h td) * 0.3\<rfloor> 50)
      else ''Failed to load'')"

section \<open>Selecting a time frame\<close>

text \<open>
  The buttons of the selector call \<open>setSelectedTimeFrame\<close>; \<open>render_chartData\<close> is the
  series computed by a render in state \<open>s\<close>.
\<close>

definition setSelectedTimeFrame :: "TimeFrame \<Rightarrow> modal_state \<Rightarrow> modal_state" where
  "setSelectedTimeFrame tf s = s\<lparr>selectedTimeFrame := tf\<rparr>"

definition render_chartData ::
  "(int \<Rightarrow> string) \<Rightarrow> modal_state \<Rightarrow> world \<Rightarrow> PricePoint list \<times> world" where
  "render_chartData toLocaleTimeString s w =
     chartData toLocaleTimeString (analytics s) (selectedTimeFrame s) w"

section \<open>Sample inputs\<close>

text \<open>
  A record with a given mint, logo, price and 24h change, and a world whose clock ticks
  by one millisecond at each reading and whose draws are all \<open>u\<close>.
\<close>

definition example_analytics ::
  "string \<Rightarrow> string option \<Rightarrow> js_number \<Rightarrow> js_number \<Rightarrow> TokenAnalytics" where
  "example_analytics m logo p change =
     \<lparr>details = \<lparr>TokenDetails.mint = m, TokenDetails.symbol = ''tok'',
                 TokenDetails.name = ''Token'', TokenDetails.logoUri = logo,
                 TokenDetails.price = p, priceChange24h = change,
                 marketCap = None, status = ''Circulating''\<rparr>,
      security = \<lparr>riskScore = 10, riskLevel = ''Low Risk'', description = []\<rparr>,
      topHolders = [],
      tradeData = \<lparr>liquidity = Fin 0, volume24h = Fin 0, buys24h = 0, sells24h = 0\<rparr>,
      totalHolders = 0\<rparr>"

definition example_world :: "real \<Rightarrow> world" where
  "example_world u =
     \<lparr>clock = (\<lambda>k. 1700000000000 + int k), draws = (\<lambda>k. u), now_calls = 0,
      random_calls = 0\<rparr>"

definition example_props :: "string \<Rightarrow> TokenHolding option \<Rightarrow> TokenDetailsModalProps" where
  "example_props m h =
     \<lparr>isOpen = True, tokenMint = Some m, tokenSymbol = None, existingTokenData = h\<rparr>"

definition example_holding :: "string \<Rightarrow> string option \<Rightarrow> TokenHolding" where
  "example_holding m logo =
     \<lparr>TokenHolding.mint = m, TokenHolding.symbol = ''tok'', TokenHolding.name = ''Token'',
      TokenHolding.logoUri = logo\<rparr>"

definition example_trades :: "js_number \<Rightarrow> int \<Rightarrow> int \<Rightarrow> RealTradeData" where
  "example_trades l b s = \<lparr>liquidity = l, volume24h = Fin 0, buys24h = b, sells24h = s\<rparr>"


section \<open>The loop, turn by turn\<close>

lemma advance_0: "advance 0 w = w"
  by (simp add: advance_def)

lemma advance_advance: "advance a (advance b w) = advance (a + b) w"
  by (simp add: advance_def algebra_simps)

lemma chartData_body_eq:
  "chartData_body f c s i w =
     (\<lparr>timestamp = clock w (now_calls w) - int (points - i) * 3600000,
       price = Math_max (finalPrice (trendPrice s c i) (volatility (Fin (draws w (random_calls w)))))
                 (js_round 0.0001),
       time = f (clock w (Suc (now_calls w)) - int (points - i) * 3600000)\<rparr>,
      advance 1 w)"
  by (simp add: chartData_body_def Math_random_def Date_now_def advance_def Let_def mult.commute)

text \<open>
  Entered at index \<open>i\<close> after \<open>i\<close> turns, the loop appends the points of the turns
  \<open>i, \<dots>, points - 1\<close>; the induction is on the number of turns left.
\<close>

lemma chartData_loop_eq:
  "points - i = n \<Longrightarrow> i \<le> points \<Longrightarrow>
   chartData_loop f c s i data (advance i w) =
     (data @ map (nth_point f c s w) [i..<points], advance points w)"
proof (induction n arbitrary: i data)
  case 0
  then have "i = points" by simp
  then show ?case by (simp add: chartData_loop.simps)
next
  case (Suc n)
  then have lt: "i < points" by simp
  have body: "chartData_body f c s i (advance i w) = (nth_point f c s w i, advance (Suc i) w)"
    by (simp add: nth_point_def chartData_body_eq advance_advance)
  have "chartData_loop f c s i data (advance i w) =
        chartData_loop f c s (Suc i) (data @ [nth_point f c s w i]) (advance (Suc i) w)"
    using lt by (subst chartData_loop.simps) (simp add: body)
  also have "\<dots> = ((data @ [nth_point f c s w i]) @ map (nth_point f c s w) [Suc i..<points],
                   advance points w)"
    using Suc.prems lt by (intro Suc.IH) simp_all
  finally show ?case using lt by (simp add: upt_conv_Cons)
qed

lemma chartData_Some:
  "chartData f (Some an) tf w =
     (map (nth_point f (TokenDetails.price (details an))
             (startPrice (TokenDetails.price (details an)) (priceChange24h (details an))) w)
          [0..<points],
      advance points w)"
  using chartData_loop_eq [of 0 points f _ _ "[]" w]
  by (simp add: chartData_def Let_def advance_0)

lemma chartData_length: "length (fst (chartData f (Some an) tf w)) = points"
  by (simp add: chartData_Some)

lemma chartData_nth:
  "i < points \<Longrightarrow>
   fst (chartData f (Some an) tf w) ! i =
     nth_point f (TokenDetails.price (details an))
       (startPrice (TokenDetails.price (details an)) (priceChange24h (details an))) w i"
  by (simp add: chartData_Some)

lemma nth_point_timestamp:
  "timestamp (nth_point f c s w k) = clock w (now_calls w + 2 * k) - int (points - k) * 3600000"
  by (simp add: nth_point_def chartData_body_eq advance_def)

lemma nth_point_price:
  "PricePoint.price (nth_point f c s w k) =
     Math_max (finalPrice (trendPrice s c k) (volatility (Fin (draws w (random_calls w + k)))))
       (js_round 0.0001)"
  by (simp add: nth_point_def chartData_body_eq advance_def)

section \<open>Rounding to a double\<close>

lemma round_half_even_of_int: "round_half_even (of_int n) = n"
  by (simp add: round_half_even_def)

lemma round_half_even_le: "q \<le> of_int M \<Longrightarrow> round_half_even q \<le> M"
proof -
  assume q: "q \<le> of_int M"
  show ?thesis
  proof (cases "q = of_int M")
    case True
    then show ?thesis by (simp add: round_half_even_of_int)
  next
    case False
    with q have "q < of_int M" by simp
    then have "\<lfloor>q\<rfloor> < M" by (simp add: floor_less_iff)
    then have "\<lfloor>q\<rfloor> + 1 \<le> M" by simp
    moreover have "round_half_even q \<le> \<lfloor>q\<rfloor> + 1"
      by (simp add: round_half_even_def Let_def)
    ultimately show ?thesis by linarith
  qed
qed

lemma round_half_even_ge: "of_int M \<le> q \<Longrightarrow> M \<le> round_half_even q"
proof -
  assume "of_int M \<le> q"
  then have "M \<le> \<lfloor>q\<rfloor>" by (simp add: le_floor_iff)
  moreover have "\<lfloor>q\<rfloor> \<le> round_half_even q"
    by (simp add: round_half_even_def Let_def)
  ultimately show ?thesis by linarith
qed

lemma exp_search_range: "- 1022 \<le> exp_search a k \<and> exp_search a k \<le> int k - 1022"
  by (induction k) auto

lemma exp_search_lower: "exp_search a k \<noteq> - 1022 \<Longrightarrow> 2 powi (exp_search a k) \<le> a"
  by (induction k) (auto split: if_splits)

lemma exp_search_upper: "exp_search a k < j \<Longrightarrow> j \<le> int k - 1022 \<Longrightarrow> a < 2 powi j"
proof (induction k)
  case 0
  then show ?case by simp
next
  case (Suc k)
  show ?case
  proof (cases "2 powi (int (Suc k) - 1022) \<le> a")
    case True
    with Suc.prems show ?thesis by simp
  next
    case False
    show ?thesis
    proof (cases "j = int (Suc k) - 1022")
      case True
      with False show ?thesis by simp
    next
      case neq: False
      with Suc.prems False have "exp_search a k < j" "j \<le> int k - 1022" by simp_all
      then show ?thesis by (rule Suc.IH)
    qed
  qed
qed

lemma binade_range: "- 1022 \<le> binade a \<and> binade a \<le> 1023"
  using exp_search_range [of a 2045] by (simp add: binade_def)

lemma binade_lower: "binade a \<noteq> - 1022 \<Longrightarrow> 2 powi (binade a) \<le> a"
  unfolding binade_def by (rule exp_search_lower)

lemma binade_upper: "binade a < j \<Longrightarrow> j \<le> 1023 \<Longrightarrow> a < 2 powi j"
  using exp_search_upper [of a 2045 j] by (simp add: binade_def)

lemma binade_eq:
  assumes "- 1022 \<le> e" "e \<le> 1023" "2 powi e \<le> a" "a < 2 powi (e + 1)"
  shows "binade a = e"
proof (rule antisym)
  show "binade a \<le> e"
  proof (rule ccontr)
    assume "\<not> binade a \<le> e"
    then have gt: "e + 1 \<le> binade a" by simp
    with assms(1) have "binade a \<noteq> - 1022" by simp
    then have "2 powi (binade a) \<le> a" by (rule binade_lower)
    moreover have "(2::real) powi (e + 1) \<le> 2 powi (binade a)"
      using gt by (intro power_int_increasing) simp_all
    ultimately show False using assms(4) by simp
  qed
  show "e \<le> binade a"
  proof (rule ccontr)
    assume "\<not> e \<le> binade a"
    then have "binade a < e" by simp
    then have "a < 2 powi e" using assms(2) by (rule binade_upper)
    with assms(3) show False by simp
  qed
qed

lemma ulp_pos: "0 < (2::real) powi k"
  by (simp add: power_int_def)

lemma round_half_even_0: "round_half_even 0 = 0"
  by (simp add: round_half_even_def)

lemma below_limit: "x \<le> 2 powi k \<Longrightarrow> k \<le> 1023 \<Longrightarrow> x < double_limit"
proof -
  assume x: "x \<le> 2 powi k" and k: "k \<le> 1023"
  have "(2::real) powi k < 2 powi 1024"
    using k by (intro power_int_strict_increasing) simp_all
  with x show ?thesis by (simp only: double_limit_def)
qed

lemma js_round_nonneg:
  "0 \<le> x \<Longrightarrow>
   js_round x =
     (if double_limit \<le> of_int (round_half_even (x / 2 powi (binade x - 52))) * 2 powi (binade x - 52)
      then PosInf
      else Fin (of_int (round_half_even (x / 2 powi (binade x - 52))) * 2 powi (binade x - 52)))"
proof -
  assume x: "0 \<le> x"
  show ?thesis
  proof (cases "x = 0")
    case True
    have "(0::real) < double_limit" using below_limit [of 0 0] by simp
    with True show ?thesis
      by (simp add: js_round_def Let_def round_half_even_0)
  next
    case False
    with x have "0 < x" by simp
    then show ?thesis by (simp add: js_round_def Let_def)
  qed
qed

lemma js_round_0: "js_round 0 = Fin 0"
proof -
  have "(0::real) < double_limit" using below_limit [of 0 0] by simp
  then show ?thesis by (simp add: js_round_nonneg round_half_even_0)
qed

lemma js_round_neg_Fin: "js_round x = Fin y \<Longrightarrow> js_round (- x) = Fin (- y)"
proof (cases "x = 0")
  case True
  assume "js_round x = Fin y"
  with True show ?thesis by (simp add: js_round_0)
next
  case False
  assume "js_round x = Fin y"
  with False show ?thesis
    by (auto simp: js_round_def Let_def split: if_splits)
qed

text \<open>A number with a 53-bit significand and an exponent in range is its own rounding.\<close>

lemma js_round_exact_nonneg:
  assumes m: "0 \<le> m" "m < 2 ^ 53" and k: "- 1074 \<le> k" and x: "x = of_int m * 2 powi k"
    and lt: "x < double_limit"
  shows "js_round x = Fin x"
proof -
  have x0: "0 \<le> x" using m x by (simp add: ulp_pos less_imp_le)
  define e where "e = binade x"
  define U :: real where "U = 2 powi (e - 52)"
  have U0: "0 < U" by (simp add: U_def ulp_pos)
  have ek: "e - 52 \<le> k"
  proof (rule ccontr)
    assume "\<not> e - 52 \<le> k"
    then have ke: "k + 53 \<le> e" by simp
    with k have "binade x \<noteq> - 1022" by (simp add: e_def)
    then have "2 powi e \<le> x" unfolding e_def by (rule binade_lower)
    moreover have "x < 2 powi (k + 53)"
    proof -
      have "real_of_int m < 2 ^ 53" using m(2) by (metis of_int_less_iff of_int_numeral of_int_power)
      then have "of_int m * 2 powi k < 2 ^ 53 * (2::real) powi k"
        by (simp add: ulp_pos)
      also have "\<dots> = 2 powi (k + 53)"
        by (simp add: power_int_add)
      finally show ?thesis using x by simp
    qed
    moreover have "(2::real) powi (k + 53) \<le> 2 powi e"
      using ke by (intro power_int_increasing) simp_all
    ultimately show False by simp
  qed
  define j where "j = nat (k - (e - 52))"
  have j: "k = (e - 52) + int j" using ek by (simp add: j_def)
  have pk: "(2::real) powi k = U * 2 ^ j"
  proof -
    have "(2::real) powi k = 2 powi ((e - 52) + int j)" using j by simp
    also have "\<dots> = 2 powi (e - 52) * 2 powi (int j)"
      by (rule power_int_add) simp
    finally show ?thesis by (simp add: U_def)
  qed
  have xU: "x = of_int (m * 2 ^ j) * U"
    by (simp only: x pk) simp
  have q: "x / U = of_int (m * 2 ^ j)"
    using U0 by (simp add: xU)
  have y: "of_int (round_half_even (x / U)) * U = x"
    by (simp only: q round_half_even_of_int xU [symmetric])
  have "js_round x = (if double_limit \<le> of_int (round_half_even (x / U)) * U then PosInf
                      else Fin (of_int (round_half_even (x / U)) * U))"
    unfolding U_def e_def by (rule js_round_nonneg [OF x0])
  then show ?thesis
    using lt by (simp only: y) simp
qed

lemma js_round_exact:
  assumes m: "\<bar>m\<bar> < 2 ^ 53" and k: "- 1074 \<le> k" and x: "x = of_int m * 2 powi k"
    and lt: "\<bar>x\<bar> < double_limit"
  shows "js_round x = Fin x"
proof (cases "0 \<le> m")
  case True
  with m have "m < 2 ^ 53" by simp
  moreover from True x have "0 \<le> x" by (simp add: ulp_pos less_imp_le)
  ultimately show ?thesis
    using True k x lt by (intro js_round_exact_nonneg [of m k]) simp_all
next
  case False
  then have m': "0 \<le> - m" "- m < 2 ^ 53" using m by simp_all
  have x': "- x = of_int (- m) * 2 powi k" by (simp add: x)
  from False x have "x \<le> 0" by (simp add: ulp_pos mult_nonpos_nonneg less_imp_le)
  with lt have "- x < double_limit" by simp
  with m' k x' have "js_round (- x) = Fin (- x)"
    by (rule js_round_exact_nonneg)
  then have "js_round (- (- x)) = Fin (- (- x))" by (rule js_round_neg_Fin)
  then show ?thesis by simp
qed

lemma two_powi_nat: "0 \<le> k \<Longrightarrow> (2::real) powi k = of_int (2 ^ nat k)"
  by (simp add: power_int_def)

lemma js_round_Fin_nonneg:
  assumes x0: "0 \<le> x" and r: "js_round x = Fin y"
  shows "\<exists>n. n = round_half_even (x / 2 powi (binade x - 52)) \<and> 0 \<le> n \<and> n \<le> 2 ^ 53
             \<and> y = of_int n * 2 powi (binade x - 52) \<and> y < double_limit"
proof -
  define e where "e = binade x"
  define U :: real where "U = 2 powi (e - 52)"
  define n where "n = round_half_even (x / U)"
  have U0: "0 < U" by (simp add: U_def ulp_pos)
  have "js_round x = (if double_limit \<le> of_int n * U then PosInf else Fin (of_int n * U))"
    unfolding n_def U_def e_def by (rule js_round_nonneg [OF x0])
  with r have y: "y = of_int n * U" and lt: "y < double_limit"
    by (auto split: if_splits)
  have "of_int 0 \<le> x / U" using x0 U0 by simp
  then have n0: "0 \<le> n" unfolding n_def by (rule round_half_even_ge)
  have n53: "n \<le> 2 ^ 53"
  proof (cases "e < 1023")
    case True
    then have "x < 2 powi (e + 1)"
      unfolding e_def by (intro binade_upper) simp_all
    also have "(2::real) powi (e + 1) = 2 powi 53 * 2 powi (e - 52)"
    proof -
      have "(2::real) powi (e + 1) = 2 powi (53 + (e - 52))"
        by (rule arg_cong [where f = "\<lambda>i. 2 powi i"]) simp
      also have "\<dots> = 2 powi 53 * 2 powi (e - 52)"
        by (rule power_int_add) simp
      finally show ?thesis .
    qed
    finally have "x / U < 2 ^ 53" using U0 by (simp add: U_def pos_divide_less_eq)
    then have "x / U \<le> of_int (2 ^ 53)" by simp
    then show ?thesis unfolding n_def by (rule round_half_even_le)
  next
    case False
    with binade_range [of x] have e: "e = 1023" by (simp add: e_def)
    show ?thesis
    proof (rule ccontr)
      assume "\<not> n \<le> 2 ^ 53"
      then have "2 ^ 53 \<le> n" by simp
      then have "(2::real) ^ 53 \<le> of_int n" by (metis of_int_le_iff of_int_numeral of_int_power)
      then have "2 ^ 53 * U \<le> of_int n * U" using U0 by simp
      moreover have "2 ^ 53 * U = double_limit"
        unfolding U_def e double_limit_def
        by (subst power_int_numeral [symmetric], subst power_int_add [symmetric]) simp_all
      ultimately show False using lt y by simp
    qed
  qed
  from n0 n53 y lt show ?thesis unfolding n_def U_def e_def by blast
qed

lemma js_round_idem_nonneg:
  assumes x0: "0 \<le> x" and r: "js_round x = Fin y"
  shows "js_round y = Fin y"
proof -
  from js_round_Fin_nonneg [OF x0 r] obtain n where
    n: "0 \<le> n" "n \<le> 2 ^ 53" and y: "y = of_int n * 2 powi (binade x - 52)"
    and lt: "y < double_limit" by blast
  have k: "- 1074 \<le> binade x - 52" using binade_range [of x] by simp
  show ?thesis
  proof (cases "n = 2 ^ 53")
    case False
    with n have "n < 2 ^ 53" by simp
    with n(1) show ?thesis using k y lt by (rule js_round_exact_nonneg)
  next
    case True
    have "y = of_int (2 ^ 52) * 2 powi (binade x - 51)"
    proof -
      have "(2::real) powi (binade x - 51) = 2 powi (binade x - 52) * 2 powi 1"
        by (subst power_int_add [symmetric]) simp_all
      then show ?thesis by (simp add: y True)
    qed
    moreover have "- 1074 \<le> binade x - 51" using k by simp
    ultimately show ?thesis
      using lt by (intro js_round_exact_nonneg [of "2 ^ 52" "binade x - 51"]) simp_all
  qed
qed

lemma js_round_neg_Fin': "js_round (- x) = Fin y \<Longrightarrow> js_round x = Fin (- y)"
  using js_round_neg_Fin [of "- x" y] by simp

lemma js_round_idem: "js_round x = Fin y \<Longrightarrow> js_round y = Fin y"
proof (cases "0 \<le> x")
  case True
  assume "js_round x = Fin y"
  with True show ?thesis by (rule js_round_idem_nonneg)
next
  case False
  assume "js_round x = Fin y"
  then have "js_round (- x) = Fin (- y)" by (rule js_round_neg_Fin)
  moreover from False have "0 \<le> - x" by simp
  ultimately have "js_round (- y) = Fin (- y)" by (rule js_round_idem_nonneg [rotated])
  then show ?thesis using js_round_neg_Fin' [of y "- y"] by simp
qed

lemma js_round_bound_nonneg:
  assumes x0: "0 \<le> x" and xk: "x \<le> 2 powi k" and k: "- 1022 \<le> k" "k \<le> 1023"
  shows "\<exists>y. js_round x = Fin y \<and> 0 \<le> y \<and> y \<le> 2 powi k"
proof -
  define e where "e = binade x"
  define U :: real where "U = 2 powi (e - 52)"
  define n where "n = round_half_even (x / U)"
  have U0: "0 < U" by (simp add: U_def ulp_pos)
  have ek: "e \<le> k"
  proof (cases "e = - 1022")
    case True
    with k show ?thesis by simp
  next
    case False
    then have "2 powi e \<le> x" unfolding e_def by (rule binade_lower)
    with xk have le: "(2::real) powi e \<le> 2 powi k" by simp
    show ?thesis
    proof (rule ccontr)
      assume "\<not> e \<le> k"
      then have "(2::real) powi k < 2 powi e"
        by (intro power_int_strict_increasing) simp_all
      with le show False by simp
    qed
  qed
  define M :: int where "M = 2 ^ nat (k - e + 52)"
  have MU: "of_int M * U = 2 powi k"
  proof -
    have "real_of_int M = 2 powi (k - e + 52)"
      using ek by (simp add: M_def two_powi_nat)
    then have "of_int M * U = 2 powi (k - e + 52) * 2 powi (e - 52)" by (simp add: U_def)
    also have "\<dots> = 2 powi ((k - e + 52) + (e - 52))"
      by (rule power_int_add [symmetric]) simp
    finally show ?thesis by simp
  qed
  have "x / U \<le> of_int M"
    using xk U0 by (simp add: MU [symmetric] pos_divide_le_eq)
  then have nM: "n \<le> M" unfolding n_def by (rule round_half_even_le)
  then have "of_int n * U \<le> of_int M * U" using U0 by simp
  then have yk: "of_int n * U \<le> 2 powi k" by (simp only: MU)
  then have lt: "of_int n * U < double_limit" using k(2) by (rule below_limit)
  have "of_int 0 \<le> x / U" using x0 U0 by simp
  then have n0: "0 \<le> n" unfolding n_def by (rule round_half_even_ge)
  have "js_round x = (if double_limit \<le> of_int n * U then PosInf else Fin (of_int n * U))"
    unfolding n_def U_def e_def by (rule js_round_nonneg [OF x0])
  with lt have "js_round x = Fin (of_int n * U)" by simp
  moreover have "0 \<le> of_int n * U" using n0 U0 by simp
  ultimately show ?thesis using yk by blast
qed

lemma js_round_bound:
  assumes xk: "\<bar>x\<bar> \<le> 2 powi k" and k: "- 1022 \<le> k" "k \<le> 1023"
  shows "\<exists>y. js_round x = Fin y \<and> \<bar>y\<bar> \<le> 2 powi k"
proof (cases "0 \<le> x")
  case True
  with xk have "x \<le> 2 powi k" by simp
  from js_round_bound_nonneg [OF True this k] show ?thesis by auto
next
  case False
  then have "0 \<le> - x" "- x \<le> 2 powi k" using xk by simp_all
  from js_round_bound_nonneg [OF this k] obtain y where
    "js_round (- x) = Fin y" "0 \<le> y" "y \<le> 2 powi k" by blast
  then have "js_round x = Fin (- y)" "\<bar>- y\<bar> \<le> 2 powi k"
    by (simp_all add: js_round_neg_Fin')
  then show ?thesis by blast
qed

text \<open>Evaluation at a positive number whose binade is known.\<close>

lemma js_round_eval:
  assumes "0 \<le> x" "- 1022 \<le> e" "e \<le> 1023" "2 powi e \<le> x" "x < 2 powi (e + 1)"
    and "round_half_even (x / 2 powi (e - 52)) = n"
    and "of_int n * 2 powi (e - 52) < double_limit"
  shows "js_round x = Fin (of_int n * 2 powi (e - 52))"
proof -
  have "binade x = e" using assms(2-5) by (rule binade_eq)
  then show ?thesis
    using assms(6,7) by (simp add: js_round_nonneg [OF assms(1)])
qed

lemma js_round_dyadic:
  assumes "\<bar>m\<bar> < 2 ^ 53" "j \<le> 1074"
  shows "js_round (of_int m / 2 ^ j) = Fin (of_int m / 2 ^ j)"
proof -
  have x: "of_int m / 2 ^ j = of_int m * (2::real) powi (- int j)"
    by (simp add: power_int_minus field_simps)
  have "\<bar>real_of_int m\<bar> < 2 ^ 53"
    using assms(1) by (metis of_int_abs of_int_less_iff of_int_numeral of_int_power)
  moreover have "\<bar>real_of_int m / 2 ^ j\<bar> \<le> \<bar>real_of_int m\<bar>"
    by (simp add: field_simps mult_le_cancel_left1)
  ultimately have "\<bar>real_of_int m / 2 ^ j\<bar> \<le> 2 powi 53" by simp
  then have "\<bar>real_of_int m / 2 ^ j\<bar> < double_limit" by (rule below_limit) simp
  then show ?thesis
    using assms by (intro js_round_exact [of m "- int j"]) (simp_all add: x)
qed

lemma js_round_int: "\<bar>m\<bar> < 2 ^ 53 \<Longrightarrow> js_round (of_int m) = Fin (of_int m)"
  using js_round_dyadic [of m 0] by simp

lemma js_round_pos:
  assumes "2 powi (- 1022) \<le> x" and r: "js_round x = Fin y"
  shows "0 < y"
proof -
  have x0: "0 \<le> x" using assms(1) ulp_pos [of "- 1022"] by linarith
  from js_round_Fin_nonneg [OF x0 r] obtain n where
    n: "n = round_half_even (x / 2 powi (binade x - 52))"
    and y: "y = of_int n * 2 powi (binade x - 52)" by blast
  have low: "2 powi (binade x) \<le> x"
  proof (cases "binade x = - 1022")
    case True
    with assms(1) show ?thesis by simp
  next
    case False
    then show ?thesis by (rule binade_lower)
  qed
  have "(2::real) powi (binade x) = 2 powi 52 * 2 powi (binade x - 52)"
  proof -
    have "(2::real) powi (binade x) = 2 powi (52 + (binade x - 52))"
      by (rule arg_cong [where f = "\<lambda>i. 2 powi i"]) simp
    also have "\<dots> = 2 powi 52 * 2 powi (binade x - 52)"
      by (rule power_int_add) simp
    finally show ?thesis .
  qed
  with low have "2 ^ 52 \<le> x / 2 powi (binade x - 52)"
    using ulp_pos [of "binade x - 52"] by (simp add: pos_le_divide_eq)
  moreover have "(1::real) \<le> 2 ^ 52" by simp
  ultimately have q1: "1 \<le> x / 2 powi (binade x - 52)" by linarith
  have "1 \<le> n" unfolding n by (rule round_half_even_ge) (simp only: of_int_1 q1)
  then show ?thesis using ulp_pos [of "binade x - 52"] by (simp add: y)
qed

lemma js_round_literal_floor: "js_round (1 / 10000) = Fin (7378697629483821 / 2 ^ 66)"
proof -
  have "js_round (1 / 10000) = Fin (of_int 7378697629483821 * 2 powi (- 14 - 52))"
  proof (rule js_round_eval)
    show "round_half_even (1 / 10000 / 2 powi (- 14 - 52)) = 7378697629483821"
      by (simp add: round_half_even_def)
    show "real_of_int 7378697629483821 * 2 powi (- 14 - 52) < double_limit"
      by (rule below_limit [of _ 0]) simp_all
  qed simp_all
  then show ?thesis by simp
qed

lemma js_round_literal_volatility: "js_round (1 / 50) = Fin (5764607523034235 / 2 ^ 58)"
proof -
  have "js_round (1 / 50) = Fin (of_int 5764607523034235 * 2 powi (- 6 - 52))"
  proof (rule js_round_eval)
    show "round_half_even (1 / 50 / 2 powi (- 6 - 52)) = 5764607523034235"
      by (simp add: round_half_even_def)
    show "real_of_int 5764607523034235 * 2 powi (- 6 - 52) < double_limit"
      by (rule below_limit [of _ 0]) simp_all
  qed simp_all
  then show ?thesis by simp
qed

section \<open>Arithmetic on finite numbers\<close>

lemma js_add_double: "js_add a b = Fin y \<Longrightarrow> js_round y = Fin y"
  by (cases a; cases b) (auto intro: js_round_idem)

lemma js_mul_double: "js_mul a b = Fin y \<Longrightarrow> js_round y = Fin y"
  by (cases a; cases b) (auto simp: js_inf_times_def intro: js_round_idem split: if_splits)

lemma js_div_double: "js_div a b = Fin y \<Longrightarrow> js_round y = Fin y"
  by (cases a; cases b) (auto simp: js_round_0 intro: js_round_idem split: if_splits)

lemma js_sub_double: "js_sub a b = Fin y \<Longrightarrow> js_round y = Fin y"
  unfolding js_sub_def by (rule js_add_double)

lemma js_sub_Fin: "js_sub (Fin a) (Fin b) = js_round (a - b)"
  by (simp add: js_sub_def)

lemma js_add_bound:
  "\<bar>a + b\<bar> \<le> 2 powi k \<Longrightarrow> - 1022 \<le> k \<Longrightarrow> k \<le> 1023 \<Longrightarrow>
   \<exists>y. js_add (Fin a) (Fin b) = Fin y \<and> \<bar>y\<bar> \<le> 2 powi k"
  by (simp add: js_round_bound)

lemma js_sub_bound:
  "\<bar>a - b\<bar> \<le> 2 powi k \<Longrightarrow> - 1022 \<le> k \<Longrightarrow> k \<le> 1023 \<Longrightarrow>
   \<exists>y. js_sub (Fin a) (Fin b) = Fin y \<and> \<bar>y\<bar> \<le> 2 powi k"
  by (simp add: js_sub_Fin js_round_bound)

lemma js_mul_bound:
  "\<bar>a * b\<bar> \<le> 2 powi k \<Longrightarrow> - 1022 \<le> k \<Longrightarrow> k \<le> 1023 \<Longrightarrow>
   \<exists>y. js_mul (Fin a) (Fin b) = Fin y \<and> \<bar>y\<bar> \<le> 2 powi k"
  by (simp add: js_round_bound)

lemma Math_max_Fin: "Math_max (Fin a) (Fin b) = Fin (max a b)"
  by (simp add: max_def)

lemma progress_first: "progress 0 = Fin 0"
  by (simp add: progress_def points_def js_round_0)

lemma progress_last: "progress (points - 1) = Fin 1"
  using js_round_int [of 1] by (simp add: progress_def points_def)

lemma progress_range:
  assumes "k < points"
  shows "\<exists>y. progress k = Fin y \<and> 0 \<le> y \<and> y \<le> 1 \<and> (0 < k \<longrightarrow> 0 < y)"
proof -
  have x0: "0 \<le> real k / 23" by simp
  have x1: "real k / 23 \<le> 2 powi 0" using assms by (simp add: points_def)
  from js_round_bound_nonneg [OF x0 x1] obtain y where
    y: "js_round (real k / 23) = Fin y" "0 \<le> y" "y \<le> 1" by auto
  have "0 < k \<longrightarrow> 0 < y"
  proof
    assume "0 < k"
    then have "1 / 23 \<le> real k / 23" by simp
    moreover have "(2::real) powi (- 1022) \<le> 2 powi (- 5)"
      by (rule power_int_increasing) simp_all
    moreover have "(2::real) powi (- 5) \<le> 1 / 23" by simp
    ultimately have "2 powi (- 1022) \<le> real k / 23" by linarith
    then show "0 < y" using y(1) by (rule js_round_pos)
  qed
  with y show ?thesis by (simp add: progress_def points_def)
qed

lemma volatility_half: "volatility (Fin (1 / 2)) = Fin 0"
  by (simp add: volatility_def js_sub_Fin js_round_0 js_round_literal_volatility)

section \<open>The start price and the division by zero\<close>

lemma startPrice_eval:
  "js_round (p / 100) = Fin q \<Longrightarrow> js_round (1 + q) = Fin d \<Longrightarrow> d \<noteq> 0 \<Longrightarrow>
   startPrice (Fin c) (Fin p) = js_round (c / d)"
  by (simp add: startPrice_def)

lemma startPrice_double: "startPrice a b = Fin s \<Longrightarrow> js_round s = Fin s"
  unfolding startPrice_def by (rule js_div_double)

lemma startPrice_minus_100: "0 < c \<Longrightarrow> startPrice (Fin c) (Fin (- 100)) = PosInf"
  using js_round_int [of "- 1"] by (simp add: startPrice_def js_round_0)

lemma trendPrice_PosInf: "k < points \<Longrightarrow> trendPrice PosInf (Fin c) k = NaN"
proof -
  assume "k < points"
  from progress_range [OF this] obtain y where
    y: "progress k = Fin y" "0 \<le> y" by blast
  have "js_sub (Fin c) PosInf = NegInf" by (simp add: js_sub_def)
  then show ?thesis
    using y by (cases "y = 0") (simp_all add: trendPrice_def js_inf_times_def)
qed

lemma nth_point_price_PosInf:
  "k < points \<Longrightarrow> PricePoint.price (nth_point f (Fin c) PosInf w k) = NaN"
  by (simp add: nth_point_price trendPrice_PosInf finalPrice_def)

section \<open>Claims about the series reconstructor\<close>

text \<open>
  Claim C1, as the code has it. The start price is what the expression
  \<open>currentPrice / (1 + priceChange24h / 100)\<close> yields in double precision: when the
  divisor computed from the change (\<open>priceChange24h / 100\<close> rounded, \<open>1\<close> added, rounded
  again) is a non-zero number \<open>d\<close>, the start price is the quotient of the current price
  by \<open>d\<close>, rounded to the nearest double. It is the exact quotient
  \<open>current / (1 + change / 100)\<close> when none of the three roundings changes its
  argument. No random draw enters it: in every world the loop of \<open>chartData\<close> is entered
  with this very value.
\<close>

theorem startPrice_rounded:
  assumes "js_round (p / 100) = Fin q" and "js_round (1 + q) = Fin d" and "d \<noteq> 0"
  shows "startPrice (Fin c) (Fin p) = js_round (c / d)
         \<and> (q = p / 100 \<and> d = 1 + q \<and> js_round (c / d) = Fin (c / d)
            \<longrightarrow> startPrice (Fin c) (Fin p) = Fin (c / (1 + p / 100)))
         \<and> (TokenDetails.price (details an) = Fin c \<and> priceChange24h (details an) = Fin p
            \<longrightarrow> chartData f (Some an) tf w
                  = chartData_loop f (Fin c) (js_round (c / d)) 0 [] w)"
proof -
  have st: "startPrice (Fin c) (Fin p) = js_round (c / d)"
    using assms by (rule startPrice_eval)
  have "q = p / 100 \<and> d = 1 + q \<and> js_round (c / d) = Fin (c / d)
          \<longrightarrow> startPrice (Fin c) (Fin p) = Fin (c / (1 + p / 100))"
    using st by auto
  moreover have "TokenDetails.price (details an) = Fin c \<and> priceChange24h (details an) = Fin p
            \<longrightarrow> chartData f (Some an) tf w
                  = chartData_loop f (Fin c) (js_round (c / d)) 0 [] w"
    using st by (simp add: chartData_def Let_def)
  ultimately show ?thesis using st by blast
qed

theorem startPrice_rounded_witness:
  "js_round (25 / 100) = Fin (1 / 4) \<and> js_round (1 + 1 / 4) = Fin (5 / 4) \<and> (5 / 4 :: real) \<noteq> 0
   \<and> startPrice (Fin (5 / 4)) (Fin 25) = Fin 1"
proof -
  have h1: "js_round (25 / 100) = Fin (1 / 4)"
    using js_round_dyadic [of 1 2] by simp
  have h2: "js_round (1 + 1 / 4) = Fin (5 / 4)"
    using js_round_dyadic [of 5 2] by simp
  have h3: "(5 / 4 :: real) \<noteq> 0" by simp
  have one: "js_round (5 / 4 / (5 / 4)) = Fin 1"
    using js_round_int [of 1] by simp
  from startPrice_rounded [OF h1 h2 h3, of "5 / 4"]
  have "startPrice (Fin (5 / 4)) (Fin 25) = js_round (5 / 4 / (5 / 4))" by blast
  with one h1 h2 h3 show ?thesis by simp
qed

text \<open>
  With the current price \<open>1\<close> and the change \<open>200\<close> the divisor is \<open>3\<close> and the start price is
  the double \<open>0.3333333333333333\<close>, which is not the quotient \<open>1 / (1 + 200 / 100)\<close>.
\<close>

theorem startPrice_not_exact_counterexample:
  "startPrice (Fin 1) (Fin 200) = Fin (6004799503160661 / 2 ^ 54)
   \<and> (6004799503160661 / 2 ^ 54 :: real) \<noteq> 1 / (1 + 200 / 100)"
proof -
  have h1: "js_round (200 / 100) = Fin 2"
    using js_round_int [of 2] by simp
  have h2: "js_round (1 + 2) = Fin 3"
    using js_round_int [of 3] by simp
  have "js_round (1 / 3) = Fin (of_int 6004799503160661 * 2 powi (- 2 - 52))"
  proof (rule js_round_eval)
    show "round_half_even (1 / 3 / 2 powi (- 2 - 52)) = 6004799503160661"
      by (simp add: round_half_even_def)
    show "real_of_int 6004799503160661 * 2 powi (- 2 - 52) < double_limit"
      by (rule below_limit [of _ 0]) simp_all
  qed simp_all
  then have third: "js_round (1 / 3) = Fin (6004799503160661 / 2 ^ 54)" by simp
  have "startPrice (Fin 1) (Fin 200) = js_round (1 / 3)"
    using startPrice_eval [OF h1 h2, of 1] by simp
  with third show ?thesis by simp
qed

text \<open>
  Claim C2, evaluated at the input \<open>current = 1.25\<close>, \<open>change = -100\<close>: nothing is
  rejected and no fallback is applied. The division is carried out, the start price is
  \<open>Infinity\<close>, and each of the 24 points carries the price \<open>NaN\<close>, which the floor
  \<open>Math.max(finalPrice, 0.0001)\<close> lets through.
\<close>

theorem degenerate_change_not_rejected:
  "startPrice (Fin (5 / 4)) (Fin (- 100)) = PosInf
   \<and> map PricePoint.price (fst (chartData (\<lambda>t. [])
        (Some (example_analytics ''mint'' None (Fin (5 / 4)) (Fin (- 100)))) TF_1D
        (example_world (1 / 2))))
      = replicate 24 NaN"
proof -
  have st: "startPrice (Fin (5 / 4)) (Fin (- 100)) = PosInf"
    by (simp add: startPrice_minus_100)
  have "map PricePoint.price (fst (chartData (\<lambda>t. [])
        (Some (example_analytics ''mint'' None (Fin (5 / 4)) (Fin (- 100)))) TF_1D
        (example_world (1 / 2))))
      = map (\<lambda>k. NaN) [0..<points]"
    by (simp add: chartData_Some example_analytics_def st nth_point_price_PosInf)
  also have "\<dots> = replicate 24 NaN"
    by (simp add: map_replicate_const points_def)
  finally show ?thesis using st by simp
qed

lemma nth_point_timestamp_less:
  assumes mono: "\<forall>j k. j \<le> k \<longrightarrow> clock w j \<le> clock w k"
    and "i < j" and "j < points"
  shows "timestamp (nth_point f c s w i) < timestamp (nth_point f c s w j)"
proof -
  have "clock w (now_calls w + 2 * i) \<le> clock w (now_calls w + 2 * j)"
    using mono \<open>i < j\<close> by simp
  moreover have "int (points - j) < int (points - i)"
    using \<open>i < j\<close> \<open>j < points\<close> by simp
  ultimately show ?thesis
    by (simp add: nth_point_timestamp)
qed

text \<open>
  Claim C3. A generated series has \<open>points = 24\<close> elements. The clock is read anew for
  each point: the point at index \<open>i\<close> carries the reading made for it minus \<open>24 - i\<close>
  hours, which is \<open>t\<close> minus \<open>24 - i\<close> hours when every reading is the one generation
  time \<open>t\<close>. When the clock does not run backwards, the timestamps are strictly
  increasing, oldest first.
\<close>

theorem series_shape:
  assumes mono: "\<forall>j k. j \<le> k \<longrightarrow> clock w j \<le> clock w k"
  shows "length (fst (chartData f (Some an) tf w)) = points \<and> points = 24
         \<and> sorted_wrt (<) (map timestamp (fst (chartData f (Some an) tf w)))
         \<and> (\<forall>i<points. timestamp (fst (chartData f (Some an) tf w) ! i)
               = clock w (now_calls w + 2 * i) - int (points - i) * (60 * 60 * 1000))
         \<and> ((\<forall>k. clock w k = t) \<longrightarrow>
              (\<forall>i<points. timestamp (fst (chartData f (Some an) tf w) ! i)
                 = t - int (points - i) * (60 * 60 * 1000)))"
proof (intro conjI allI impI)
  show "length (fst (chartData f (Some an) tf w)) = points"
    by (rule chartData_length)
  show "points = 24" by (simp add: points_def)
  show "sorted_wrt (<) (map timestamp (fst (chartData f (Some an) tf w)))"
    by (simp add: sorted_wrt_iff_nth_less chartData_length chartData_nth
        nth_point_timestamp_less [OF mono] del: sorted_wrt_map)
next
  fix i assume "i < points"
  then show "timestamp (fst (chartData f (Some an) tf w) ! i)
               = clock w (now_calls w + 2 * i) - int (points - i) * (60 * 60 * 1000)"
    by (simp add: chartData_nth nth_point_timestamp)
next
  fix i assume "\<forall>k. clock w k = t" and "i < points"
  then show "timestamp (fst (chartData f (Some an) tf w) ! i)
               = t - int (points - i) * (60 * 60 * 1000)"
    by (simp add: chartData_nth nth_point_timestamp)
qed

theorem series_shape_witness:
  "length (fst (chartData (\<lambda>t. []) (Some (example_analytics ''mint'' None (Fin 2) (Fin 100)))
      TF_1D (example_world (1 / 4)))) = 24
   \<and> timestamp (fst (chartData (\<lambda>t. []) (Some (example_analytics ''mint'' None (Fin 2) (Fin 100)))
      TF_1D (example_world (1 / 4))) ! 0) = 1700000000000 - 24 * 3600000
   \<and> timestamp (fst (chartData (\<lambda>t. []) (Some (example_analytics ''mint'' None (Fin 2) (Fin 100)))
      TF_1D (example_world (1 / 4))) ! 23) = 1700000000046 - 1 * 3600000"
proof -
  let ?w = "example_world (1 / 4)"
  let ?s = "fst (chartData (\<lambda>t. []) (Some (example_analytics ''mint'' None (Fin 2) (Fin 100)))
      TF_1D ?w)"
  have mono: "\<forall>j k. j \<le> k \<longrightarrow> clock ?w j \<le> clock ?w k"
    by (simp add: example_world_def)
  note shape = series_shape [OF mono, of "\<lambda>t. []"
      "example_analytics ''mint'' None (Fin 2) (Fin 100)" TF_1D]
  from shape have len: "length ?s = 24"
    by simp
  from shape have t0: "timestamp (?s ! 0)
      = clock ?w (now_calls ?w + 2 * 0) - int (points - 0) * (60 * 60 * 1000)"
    by (simp add: points_def)
  from shape have t23: "timestamp (?s ! 23)
      = clock ?w (now_calls ?w + 2 * 23) - int (points - 23) * (60 * 60 * 1000)"
    by (simp add: points_def)
  show ?thesis
    using len t0 t23 by (simp add: example_world_def points_def)
qed

section \<open>The floor\<close>

lemma two_powi_double: "(2::real) powi (k + 1) = 2 * 2 powi k"
proof -
  have "(2::real) powi (k + 1) = 2 powi k * 2 powi 1"
    by (rule power_int_add) simp
  then show ?thesis by simp
qed

text \<open>
  When the current price and the start price are at most \<open>2 powi K\<close> in magnitude with
  \<open>K \<le> 1020\<close>, no step of a turn of the loop overflows, whatever the draw in \<open>[0, 1)\<close>.
\<close>

lemma finalPrice_finite:
  assumes c: "\<bar>c\<bar> \<le> 2 powi K" and s: "\<bar>s\<bar> \<le> 2 powi K"
    and K: "- 1022 \<le> K" "K \<le> 1020"
    and r: "0 \<le> r" "r < 1" and i: "i < points"
  shows "\<exists>f. finalPrice (trendPrice (Fin s) (Fin c) i) (volatility (Fin r)) = Fin f"
proof -
  define P :: real where "P = 2 powi K"
  have P0: "0 < P" by (simp add: P_def ulp_pos)
  have e1: "2 powi (K + 1) = 2 * P"
    by (simp only: two_powi_double P_def)
  have e2: "2 powi (K + 2) = 4 * P"
    using two_powi_double [of "K + 1"] by (simp add: e1 add.assoc)
  have e3: "2 powi (K + 3) = 8 * P"
    using two_powi_double [of "K + 2"] by (simp add: e2 add.assoc)
  have cP: "\<bar>c\<bar> \<le> P" and sP: "\<bar>s\<bar> \<le> P" using c s by (simp_all add: P_def)
  have "\<bar>c - s\<bar> \<le> 2 * P" using cP sP by simp
  then have "\<bar>c - s\<bar> \<le> 2 powi (K + 1)" by (simp only: e1)
  from js_sub_bound [OF this] K obtain d1 where
    d1: "js_sub (Fin c) (Fin s) = Fin d1" and "\<bar>d1\<bar> \<le> 2 powi (K + 1)" by auto
  then have d1P: "\<bar>d1\<bar> \<le> 2 * P" by (simp only: e1)
  from progress_range [OF i] obtain y where
    y: "progress i = Fin y" "0 \<le> y" "y \<le> 1" by blast
  have "\<bar>d1 * y\<bar> \<le> \<bar>d1\<bar>"
    using y by (simp add: abs_mult mult_left_le)
  with d1P have "\<bar>d1 * y\<bar> \<le> 2 * P" by simp
  then have "\<bar>d1 * y\<bar> \<le> 2 powi (K + 1)" by (simp only: e1)
  from js_mul_bound [OF this] K obtain d2 where
    d2: "js_mul (Fin d1) (Fin y) = Fin d2" and "\<bar>d2\<bar> \<le> 2 powi (K + 1)" by auto
  then have d2P: "\<bar>d2\<bar> \<le> 2 * P" by (simp only: e1)
  have "\<bar>s + d2\<bar> \<le> 4 * P" using sP d2P P0 by simp
  then have "\<bar>s + d2\<bar> \<le> 2 powi (K + 2)" by (simp only: e2)
  from js_add_bound [OF this] K obtain tr where
    tr: "js_add (Fin s) (Fin d2) = Fin tr" and "\<bar>tr\<bar> \<le> 2 powi (K + 2)" by auto
  then have trP: "\<bar>tr\<bar> \<le> 4 * P" by (simp only: e2)
  have trend: "trendPrice (Fin s) (Fin c) i = Fin tr"
    by (simp only: trendPrice_def d1 y d2 tr)
  have "\<bar>r - 1 / 2\<bar> \<le> 1 / 2" using r by linarith
  then have "\<bar>r - 1 / 2\<bar> \<le> 2 powi (- 1)" by simp
  from js_sub_bound [OF this] obtain v1 where
    v1: "js_sub (Fin r) (Fin (1 / 2)) = Fin v1" "\<bar>v1\<bar> \<le> 2 powi (- 1)" by auto
  have "\<bar>v1 * (5764607523034235 / 2 ^ 58)\<bar> \<le> 2 powi 0"
  proof -
    have "\<bar>v1 * (5764607523034235 / 2 ^ 58)\<bar> = \<bar>v1\<bar> * (5764607523034235 / 2 ^ 58)"
      by (simp add: abs_mult)
    also have "\<dots> \<le> \<bar>v1\<bar> * 1"
      by (rule mult_left_mono) simp_all
    finally show ?thesis using v1(2) by simp
  qed
  from js_mul_bound [OF this] obtain v where
    v: "js_mul (Fin v1) (Fin (5764607523034235 / 2 ^ 58)) = Fin v" "\<bar>v\<bar> \<le> 2 powi 0" by auto
  have vol: "volatility (Fin r) = Fin v"
    using v1(1) v(1) by (simp add: volatility_def js_round_literal_volatility)
  have "\<bar>1 + v\<bar> \<le> 2 powi 1" using v(2) by simp
  from js_add_bound [OF this] obtain ov where
    ov: "js_add (Fin 1) (Fin v) = Fin ov" "\<bar>ov\<bar> \<le> 2 powi 1" by auto
  have "\<bar>tr\<bar> * \<bar>ov\<bar> \<le> (4 * P) * 2"
    using trP ov(2) by (intro mult_mono) simp_all
  then have "\<bar>tr * ov\<bar> \<le> 8 * P" by (simp add: abs_mult)
  then have "\<bar>tr * ov\<bar> \<le> 2 powi (K + 3)" by (simp only: e3)
  from js_mul_bound [OF this] K obtain f where
    f: "js_mul (Fin tr) (Fin ov) = Fin f" by auto
  have "finalPrice (trendPrice (Fin s) (Fin c) i) (volatility (Fin r)) = Fin f"
    by (simp only: finalPrice_def trend vol ov f)
  then show ?thesis ..
qed

lemma one_plus_volatility_quarter:
  "js_add (Fin 1) (volatility (Fin (1 / 4))) = Fin (8962163258467287 / 2 ^ 53)"
proof -
  have a: "js_round (- (1 / 4)) = Fin (- (1 / 4))"
    using js_round_dyadic [of "- 1" 2] by simp
  have b: "js_round (- (5764607523034235 / 2 ^ 60)) = Fin (- (5764607523034235 / 2 ^ 60))"
    using js_round_dyadic [of "- 5764607523034235" 60] by simp
  have vol: "volatility (Fin (1 / 4)) = Fin (- (5764607523034235 / 2 ^ 60))"
    using a b by (simp add: volatility_def js_sub_Fin js_round_literal_volatility)
  have "js_round (1147156897083812741 / 2 ^ 60)
          = Fin (of_int 8962163258467287 * 2 powi (- 1 - 52))"
  proof (rule js_round_eval)
    show "round_half_even (1147156897083812741 / 2 ^ 60 / 2 powi (- 1 - 52)) = 8962163258467287"
      by (simp add: round_half_even_def)
    show "real_of_int 8962163258467287 * 2 powi (- 1 - 52) < double_limit"
      by (rule below_limit [of _ 0]) simp_all
  qed simp_all
  then show ?thesis by (simp add: vol)
qed

text \<open>
  Claim C4, as the code has it. The floor is \<open>Math.max(finalPrice, 0.0001)\<close>. When the
  24h change is finite and the current price and the start price are finite numbers of
  magnitude at most \<open>2 powi 1020\<close> (a finite start price means that the divisor was not
  zero), then under
  any draws in \<open>[0, 1)\<close> every perturbed trend price is a finite number and every emitted
  price is the larger of it and the floor (the double \<open>0.0001\<close>): a finite number at
  least \<open>0.0001\<close>, equal to the floor whenever the perturbed trend price is at or below
  the floor. It is not always above the floor.
\<close>

theorem price_at_least_floor:
  assumes "TokenDetails.price (details an) = Fin c"
    and "priceChange24h (details an) = Fin p"
    and "startPrice (Fin c) (Fin p) = Fin s"
    and "\<bar>c\<bar> \<le> 2 powi 1020" and "\<bar>s\<bar> \<le> 2 powi 1020"
    and "\<forall>k. 0 \<le> draws w k \<and> draws w k < 1"
  shows "js_round 0.0001 = Fin (7378697629483821 / 2 ^ 66)
         \<and> (\<forall>i<points. \<exists>x.
           finalPrice (trendPrice (Fin s) (Fin c) i) (volatility (Fin (draws w (random_calls w + i))))
             = Fin x
           \<and> PricePoint.price (fst (chartData f (Some an) tf w) ! i)
               = Fin (max x (7378697629483821 / 2 ^ 66))
           \<and> 1 / 10000 \<le> max x (7378697629483821 / 2 ^ 66))"
proof (intro conjI allI impI)
  show "js_round 0.0001 = Fin (7378697629483821 / 2 ^ 66)"
    using js_round_literal_floor by simp
next
  fix i assume i: "i < points"
  have r: "0 \<le> draws w (random_calls w + i)" "draws w (random_calls w + i) < 1"
    using assms(6) by simp_all
  from finalPrice_finite [OF assms(4,5) _ _ r i] obtain x where
    x: "finalPrice (trendPrice (Fin s) (Fin c) i) (volatility (Fin (draws w (random_calls w + i))))
          = Fin x" by auto
  have "PricePoint.price (fst (chartData f (Some an) tf w) ! i)
          = Math_max (Fin x) (js_round (1 / 10000))"
    using i by (simp add: chartData_nth assms(1,2,3) nth_point_price x)
  then have p: "PricePoint.price (fst (chartData f (Some an) tf w) ! i)
                  = Fin (max x (7378697629483821 / 2 ^ 66))"
    by (simp only: js_round_literal_floor Math_max_Fin)
  have "(1::real) / 10000 \<le> 7378697629483821 / 2 ^ 66" by simp
  then have "1 / 10000 \<le> max x (7378697629483821 / 2 ^ 66)" by (simp add: le_max_iff_disj)
  with x p show "\<exists>x.
           finalPrice (trendPrice (Fin s) (Fin c) i) (volatility (Fin (draws w (random_calls w + i))))
             = Fin x
           \<and> PricePoint.price (fst (chartData f (Some an) tf w) ! i)
               = Fin (max x (7378697629483821 / 2 ^ 66))
           \<and> 1 / 10000 \<le> max x (7378697629483821 / 2 ^ 66)" by blast
qed

theorem price_at_least_floor_witness:
  "TokenDetails.price (details (example_analytics ''mint'' None (Fin 2) (Fin 100))) = Fin 2
   \<and> priceChange24h (details (example_analytics ''mint'' None (Fin 2) (Fin 100))) = Fin 100
   \<and> startPrice (Fin 2) (Fin 100) = Fin 1
   \<and> PricePoint.price (fst (chartData (\<lambda>t. [])
          (Some (example_analytics ''mint'' None (Fin 2) (Fin 100))) TF_1D
          (example_world (1 / 4))) ! 0)
       = Fin (8962163258467287 / 2 ^ 53)
   \<and> (1::real) / 10000 \<le> 8962163258467287 / 2 ^ 53"
proof -
  let ?an = "example_analytics ''mint'' None (Fin 2) (Fin 100)"
  let ?w = "example_world (1 / 4)"
  let ?s = "fst (chartData (\<lambda>t. []) (Some ?an) TF_1D ?w)"
  have r1: "js_round 1 = Fin 1" using js_round_int [of 1] by simp
  have r2: "js_round 2 = Fin 2" using js_round_int [of 2] by simp
  have h1: "TokenDetails.price (details ?an) = Fin 2"
    by (simp add: example_analytics_def)
  have h2: "priceChange24h (details ?an) = Fin 100"
    by (simp add: example_analytics_def)
  have h3: "startPrice (Fin 2) (Fin 100) = Fin 1"
    by (simp add: startPrice_def r1 r2)
  have "(2::real) powi 1 \<le> 2 powi 1020" by (rule power_int_increasing) simp_all
  then have h4: "\<bar>2::real\<bar> \<le> 2 powi 1020" by simp
  have "(2::real) powi 0 \<le> 2 powi 1020" by (rule power_int_increasing) simp_all
  then have h5: "\<bar>1::real\<bar> \<le> 2 powi 1020" by simp
  have h6: "\<forall>k. 0 \<le> draws ?w k \<and> draws ?w k < 1" by (simp add: example_world_def)
  have i0: "0 < points" by (simp add: points_def)
  have trend: "trendPrice (Fin 1) (Fin 2) 0 = Fin 1"
    by (simp add: trendPrice_def progress_first js_sub_Fin r1 js_round_0)
  have ov: "js_round (8962163258467287 / 2 ^ 53) = Fin (8962163258467287 / 2 ^ 53)"
    using js_round_dyadic [of 8962163258467287 53] by simp
  have final: "finalPrice (trendPrice (Fin 1) (Fin 2) 0)
                 (volatility (Fin (draws ?w (random_calls ?w + 0))))
               = Fin (8962163258467287 / 2 ^ 53)"
    using ov by (simp add: trend finalPrice_def example_world_def one_plus_volatility_quarter)
  from price_at_least_floor [OF h1 h2 h3 h4 h5 h6, of "\<lambda>t. []" TF_1D] i0
  obtain x where
    x: "finalPrice (trendPrice (Fin 1) (Fin 2) 0)
          (volatility (Fin (draws ?w (random_calls ?w + 0)))) = Fin x"
    and p: "PricePoint.price (?s ! 0) = Fin (max x (7378697629483821 / 2 ^ 66))"
    and ge: "1 / 10000 \<le> max x (7378697629483821 / 2 ^ 66)"
    by blast
  from x final have xv: "x = 8962163258467287 / 2 ^ 53" by simp
  have m: "max (8962163258467287 / 2 ^ 53) (7378697629483821 / 2 ^ 66 :: real)
             = 8962163258467287 / 2 ^ 53" by simp
  from p ge have "PricePoint.price (?s ! 0) = Fin (8962163258467287 / 2 ^ 53)"
    and "(1::real) / 10000 \<le> 8962163258467287 / 2 ^ 53"
    unfolding xv m by simp_all
  with h1 h2 h3 show ?thesis by blast
qed

text \<open>
  With the current price \<open>2 powi (- 15)\<close> (about \<open>0.00003\<close>), no change and the draw
  \<open>0.25\<close>, the perturbed trend price of the first point is below the floor, and the first
  point carries exactly the floor, the double \<open>0.0001\<close>, which is not greater than the
  floor.
\<close>

theorem price_not_above_floor_counterexample:
  "PricePoint.price (fst (chartData (\<lambda>t. [])
      (Some (example_analytics ''mint'' None (Fin (1 / 2 ^ 15)) (Fin 0))) TF_1D
      (example_world (1 / 4))) ! 0)
     = Fin (7378697629483821 / 2 ^ 66)
   \<and> js_round 0.0001 = Fin (7378697629483821 / 2 ^ 66)
   \<and> \<not> js_gt (PricePoint.price (fst (chartData (\<lambda>t. [])
      (Some (example_analytics ''mint'' None (Fin (1 / 2 ^ 15)) (Fin 0))) TF_1D
      (example_world (1 / 4))) ! 0))
        (js_round 0.0001)"
proof -
  let ?an = "example_analytics ''mint'' None (Fin (1 / 2 ^ 15)) (Fin 0)"
  let ?w = "example_world (1 / 4)"
  let ?s = "fst (chartData (\<lambda>t. []) (Some ?an) TF_1D ?w)"
  have r1: "js_round 1 = Fin 1" using js_round_int [of 1] by simp
  have rc: "js_round (1 / 2 ^ 15) = Fin (1 / 2 ^ 15)"
    using js_round_dyadic [of 1 15] by simp
  have st: "startPrice (Fin (1 / 2 ^ 15)) (Fin 0) = Fin (1 / 2 ^ 15)"
    using rc by (simp add: startPrice_def js_round_0 r1)
  have trend: "trendPrice (Fin (1 / 2 ^ 15)) (Fin (1 / 2 ^ 15)) 0 = Fin (1 / 2 ^ 15)"
    using rc by (simp add: trendPrice_def progress_first js_sub_Fin js_round_0)
  have prod: "js_round (8962163258467287 / 2 ^ 68) = Fin (8962163258467287 / 2 ^ 68)"
    using js_round_dyadic [of 8962163258467287 68] by simp
  have final: "finalPrice (Fin (1 / 2 ^ 15)) (volatility (Fin (1 / 4)))
                 = Fin (8962163258467287 / 2 ^ 68)"
    using prod by (simp add: finalPrice_def one_plus_volatility_quarter)
  have val: "PricePoint.price (?s ! 0) = Fin (7378697629483821 / 2 ^ 66)"
    using final trend st
    by (simp add: chartData_nth points_def example_analytics_def nth_point_price
        example_world_def js_round_literal_floor Math_max_Fin)
  have fl: "js_round 0.0001 = Fin (7378697629483821 / 2 ^ 66)"
    using js_round_literal_floor by simp
  show ?thesis unfolding val fl by simp
qed

section \<open>The ends of the trend\<close>

lemma trendPrice_first:
  assumes s: "js_round s = Fin s" and t: "js_sub (Fin c) (Fin s) = Fin t"
  shows "trendPrice (Fin s) (Fin c) 0 = Fin s"
  by (simp add: trendPrice_def t progress_first js_round_0 s)

lemma trendPrice_last:
  assumes t: "js_sub (Fin c) (Fin s) = Fin t"
  shows "trendPrice (Fin s) (Fin c) (points - 1) = js_add (Fin s) (Fin t)"
proof -
  have "js_round t = Fin t" using t by (rule js_sub_double)
  then have "js_mul (Fin t) (Fin 1) = Fin t" by simp
  then show ?thesis by (simp only: trendPrice_def t progress_last)
qed

text \<open>With the volatility \<open>0\<close> the perturbed price is the trend price.\<close>

lemma finalPrice_no_noise:
  assumes "\<And>u. x = Fin u \<Longrightarrow> js_round u = Fin u"
  shows "finalPrice x (Fin 0) = x"
proof -
  have one: "js_round 1 = Fin 1" using js_round_int [of 1] by simp
  show ?thesis
    using assms by (cases x) (simp_all add: finalPrice_def one js_inf_times_def)
qed

text \<open>
  Claim C5, as the code has it. Let the start price be a finite number and let the
  difference \<open>current - start\<close> not overflow. The trend component (\<open>trendPrice\<close>, before
  the perturbation and the floor) is the start price at index \<open>0\<close>. At index
  \<open>points - 1\<close> it is the double-precision sum \<open>start + (current - start)\<close>, the
  difference being rounded first: this is the current price when the current price is a
  double and the difference is computed without rounding, and can miss it by a rounding
  error otherwise. With the perturbation disabled (every draw is \<open>0.5\<close>, so the volatility
  is \<open>0\<close>), the emitted prices at the two ends are these two trend values, floored at
  \<open>0.0001\<close>.
\<close>

theorem trend_endpoints:
  assumes "TokenDetails.price (details an) = Fin c"
    and "priceChange24h (details an) = Fin p"
    and "startPrice (Fin c) (Fin p) = Fin s"
    and "js_sub (Fin c) (Fin s) = Fin t"
    and "\<forall>k. draws w k = 1 / 2"
  shows "trendPrice (Fin s) (Fin c) 0 = Fin s
         \<and> trendPrice (Fin s) (Fin c) (points - 1) = js_add (Fin s) (Fin t)
         \<and> (js_round c = Fin c \<and> t = c - s
              \<longrightarrow> trendPrice (Fin s) (Fin c) (points - 1) = Fin c)
         \<and> PricePoint.price (fst (chartData f (Some an) tf w) ! 0)
             = Math_max (Fin s) (js_round 0.0001)
         \<and> PricePoint.price (fst (chartData f (Some an) tf w) ! (points - 1))
             = Math_max (js_add (Fin s) (Fin t)) (js_round 0.0001)"
proof -
  have sd: "js_round s = Fin s" using assms(3) by (rule startPrice_double)
  have a: "trendPrice (Fin s) (Fin c) 0 = Fin s"
    using sd assms(4) by (rule trendPrice_first)
  have b: "trendPrice (Fin s) (Fin c) (points - 1) = js_add (Fin s) (Fin t)"
    using assms(4) by (rule trendPrice_last)
  have e: "js_round c = Fin c \<and> t = c - s
             \<longrightarrow> trendPrice (Fin s) (Fin c) (points - 1) = Fin c"
  proof (intro impI, elim conjE)
    assume rc: "js_round c = Fin c" and tt: "t = c - s"
    have "js_add (Fin s) (Fin t) = Fin c" using rc by (simp add: tt)
    then show "trendPrice (Fin s) (Fin c) (points - 1) = Fin c" by (simp only: b)
  qed
  have noise: "\<And>k. volatility (Fin (draws w k)) = Fin 0"
    by (simp only: assms(5) volatility_half)
  have f0: "finalPrice (Fin s) (Fin 0) = Fin s"
    by (rule finalPrice_no_noise) (simp add: sd)
  have f1: "finalPrice (js_add (Fin s) (Fin t)) (Fin 0) = js_add (Fin s) (Fin t)"
    by (rule finalPrice_no_noise) (rule js_add_double)
  have c0: "PricePoint.price (fst (chartData f (Some an) tf w) ! 0)
              = Math_max (Fin s) (js_round 0.0001)"
    by (simp only: chartData_nth points_def zero_less_numeral assms(1,2,3) nth_point_price
        a noise f0)
  have "points - 1 < points" by (simp add: points_def)
  then have c1: "PricePoint.price (fst (chartData f (Some an) tf w) ! (points - 1))
                 = Math_max (js_add (Fin s) (Fin t)) (js_round 0.0001)"
    by (simp only: chartData_nth assms(1,2,3) nth_point_price b noise f1)
  from a b e c0 c1 show ?thesis by blast
qed

theorem trend_endpoints_witness:
  "startPrice (Fin (5 / 4)) (Fin 25) = Fin 1
   \<and> js_sub (Fin (5 / 4)) (Fin 1) = Fin (1 / 4)
   \<and> trendPrice (Fin 1) (Fin (5 / 4)) 0 = Fin 1
   \<and> trendPrice (Fin 1) (Fin (5 / 4)) 23 = Fin (5 / 4)
   \<and> PricePoint.price (fst (chartData (\<lambda>t. [])
      (Some (example_analytics ''mint'' None (Fin (5 / 4)) (Fin 25)))
      TF_1D (example_world (1 / 2))) ! 0) = Fin 1
   \<and> PricePoint.price (fst (chartData (\<lambda>t. [])
      (Some (example_analytics ''mint'' None (Fin (5 / 4)) (Fin 25)))
      TF_1D (example_world (1 / 2))) ! 23) = Fin (5 / 4)"
proof -
  let ?an = "example_analytics ''mint'' None (Fin (5 / 4)) (Fin 25)"
  let ?w = "example_world (1 / 2)"
  have r1: "js_round 1 = Fin 1" using js_round_int [of 1] by simp
  have rq: "js_round (1 / 4) = Fin (1 / 4)" using js_round_dyadic [of 1 2] by simp
  have rc: "js_round (5 / 4) = Fin (5 / 4)" using js_round_dyadic [of 5 2] by simp
  have h1: "TokenDetails.price (details ?an) = Fin (5 / 4)"
    by (simp add: example_analytics_def)
  have h2: "priceChange24h (details ?an) = Fin 25"
    by (simp add: example_analytics_def)
  have h3: "startPrice (Fin (5 / 4)) (Fin 25) = Fin 1"
    by (simp add: startPrice_def rq rc r1)
  have h4: "js_sub (Fin (5 / 4)) (Fin 1) = Fin (1 / 4)"
    by (simp add: js_sub_Fin rq)
  have h5: "\<forall>k. draws ?w k = 1 / 2" by (simp add: example_world_def)
  have sum: "js_add (Fin 1) (Fin (1 / 4)) = Fin (5 / 4)" by (simp add: rc)
  have m0: "Math_max (Fin 1) (js_round 0.0001) = Fin 1"
    using js_round_literal_floor by (simp add: Math_max_Fin)
  have m1: "Math_max (Fin (5 / 4)) (js_round 0.0001) = Fin (5 / 4)"
    using js_round_literal_floor by (simp add: Math_max_Fin)
  from trend_endpoints [OF h1 h2 h3 h4 h5, of "\<lambda>t. []" TF_1D]
  show ?thesis
    using h3 h4 rc sum m0 m1 by (simp add: points_def)
qed

text \<open>
  With the current price \<open>0.1\<close> (the double \<open>3602879701896397 / 2 ^ 55\<close>), the change \<open>-75\<close>
  and the perturbation disabled, the start price is \<open>0.4\<close>, the difference
  \<open>current - start\<close> rounds to \<open>-0.30000000000000004\<close>, and the trend component and the
  emitted price at the last index are \<open>0.09999999999999998\<close>, not the current price.
\<close>

theorem trend_last_not_current_counterexample:
  "js_round 0.1 = Fin (3602879701896397 / 2 ^ 55)
   \<and> trendPrice (startPrice (Fin (3602879701896397 / 2 ^ 55)) (Fin (- 75)))
        (Fin (3602879701896397 / 2 ^ 55)) (points - 1)
       = Fin (3602879701896396 / 2 ^ 55)
   \<and> PricePoint.price (fst (chartData (\<lambda>t. [])
        (Some (example_analytics ''mint'' None (Fin (3602879701896397 / 2 ^ 55)) (Fin (- 75))))
        TF_1D (example_world (1 / 2))) ! (points - 1))
       = Fin (3602879701896396 / 2 ^ 55)
   \<and> (3602879701896396 / 2 ^ 55 :: real) \<noteq> 3602879701896397 / 2 ^ 55"
proof -
  let ?c = "3602879701896397 / 2 ^ 55 :: real"
  let ?an = "example_analytics ''mint'' None (Fin ?c) (Fin (- 75))"
  let ?w = "example_world (1 / 2)"
  have lit: "js_round 0.1 = Fin ?c"
  proof -
    have "js_round (1 / 10) = Fin (of_int 7205759403792794 * 2 powi (- 4 - 52))"
    proof (rule js_round_eval)
      show "round_half_even (1 / 10 / 2 powi (- 4 - 52)) = 7205759403792794"
        by (simp add: round_half_even_def)
      show "real_of_int 7205759403792794 * 2 powi (- 4 - 52) < double_limit"
        by (rule below_limit [of _ 0]) simp_all
    qed simp_all
    then show ?thesis by simp
  qed
  have rq: "js_round (- (3 / 4)) = Fin (- (3 / 4))" using js_round_dyadic [of "- 3" 2] by simp
  have rd: "js_round (1 / 4) = Fin (1 / 4)" using js_round_dyadic [of 1 2] by simp
  have rs: "js_round (3602879701896397 / 2 ^ 53) = Fin (3602879701896397 / 2 ^ 53)"
    using js_round_dyadic [of 3602879701896397 53] by simp
  have st: "startPrice (Fin ?c) (Fin (- 75)) = Fin (3602879701896397 / 2 ^ 53)"
    using rs by (simp add: startPrice_def rq rd)
  have "js_round (10808639105689191 / 2 ^ 55)
          = Fin (of_int 5404319552844596 * 2 powi (- 2 - 52))"
  proof (rule js_round_eval)
    show "round_half_even (10808639105689191 / 2 ^ 55 / 2 powi (- 2 - 52)) = 5404319552844596"
      by (simp add: round_half_even_def)
    show "real_of_int 5404319552844596 * 2 powi (- 2 - 52) < double_limit"
      by (rule below_limit [of _ 0]) simp_all
  qed simp_all
  then have "js_round (10808639105689191 / 2 ^ 55) = Fin (5404319552844596 / 2 ^ 54)" by simp
  then have "js_round (- (10808639105689191 / 2 ^ 55)) = Fin (- (5404319552844596 / 2 ^ 54))"
    by (rule js_round_neg_Fin)
  then have diff: "js_sub (Fin ?c) (Fin (3602879701896397 / 2 ^ 53))
                     = Fin (- (5404319552844596 / 2 ^ 54))"
    by (simp add: js_sub_Fin)
  have rl: "js_round (3602879701896396 / 2 ^ 55) = Fin (3602879701896396 / 2 ^ 55)"
    using js_round_dyadic [of 3602879701896396 55] by simp
  have sum: "js_add (Fin (3602879701896397 / 2 ^ 53)) (Fin (- (5404319552844596 / 2 ^ 54)))
               = Fin (3602879701896396 / 2 ^ 55)"
    using rl by simp
  have last: "trendPrice (Fin (3602879701896397 / 2 ^ 53)) (Fin ?c) (points - 1)
                = Fin (3602879701896396 / 2 ^ 55)"
    by (simp only: trendPrice_last [OF diff] sum)
  have noise: "volatility (Fin (draws ?w (random_calls ?w + (points - 1)))) = Fin 0"
    by (simp add: example_world_def volatility_half)
  have fin: "finalPrice (Fin (3602879701896396 / 2 ^ 55)) (Fin 0)
               = Fin (3602879701896396 / 2 ^ 55)"
  proof (rule finalPrice_no_noise)
    fix u :: real
    assume "Fin (3602879701896396 / 2 ^ 55) = Fin u"
    then have eq: "3602879701896396 / 2 ^ 55 = u" by (simp only: js_number.inject)
    show "js_round u = Fin u" using rl unfolding eq .
  qed
  have m: "Math_max (Fin (3602879701896396 / 2 ^ 55)) (js_round 0.0001)
             = Fin (3602879701896396 / 2 ^ 55)"
    using js_round_literal_floor by (simp add: Math_max_Fin)
  have h1: "TokenDetails.price (details ?an) = Fin ?c"
    by (simp add: example_analytics_def)
  have h2: "priceChange24h (details ?an) = Fin (- 75)"
    by (simp add: example_analytics_def)
  have "points - 1 < points" by (simp add: points_def)
  then have pr: "PricePoint.price (fst (chartData (\<lambda>t. []) (Some ?an) TF_1D ?w) ! (points - 1))
              = Fin (3602879701896396 / 2 ^ 55)"
    by (simp only: chartData_nth h1 h2 st nth_point_price last noise fin m)
  have ne: "(3602879701896396 / 2 ^ 55 :: real) \<noteq> 3602879701896397 / 2 ^ 55" by simp
  from lit last pr ne show ?thesis by (simp only: st) simp
qed

text \<open>
  Claim C8. The selected time frame does not enter the series: for the same record,
  the same clock and the same draws, two time frames give the same series (and the same
  world afterwards), and so does a render after a button of the selector was pressed.
\<close>

theorem timeframe_has_no_effect:
  "chartData f a tf1 w = chartData f a tf2 w
   \<and> render_chartData f (setSelectedTimeFrame tf s) w = render_chartData f s w"
  by (simp add: chartData_def render_chartData_def setSelectedTimeFrame_def)

section \<open>Claims about the header, the fetch and the rendered fields\<close>

lemma floor_three_tenths: "\<lfloor>real_of_int n * 0.3\<rfloor> = (3 * n) div 10"
proof -
  have "real_of_int n * 0.3 = real_of_int (3 * n) / real_of_int 10" by simp
  then show ?thesis by (simp only: floor_divide_of_int_eq)
qed

text \<open>
  Claim C6, as the code has it. The reserved mint is looked up on the existing record:
  when the existing record is present and its mint is the reserved native-asset mint,
  the logo is the canonical URI whatever the fetched and the existing logos are. When the
  existing record has another mint, the fetched logo is missing (absent or empty) and the
  existing logo is present (not empty), the logo is the existing record's logo.
\<close>

theorem headerLogo_merge:
  "(map_option TokenHolding.mint (existingTokenData props)
      = Some ''So11111111111111111111111111111111111111112''
    \<longrightarrow> headerLogo props a = Some SOL_LOGO_URI)
   \<and> (existingTokenData props = Some h
      \<and> TokenHolding.mint h \<noteq> ''So11111111111111111111111111111111111111112''
      \<and> \<not> truthy (case a of None \<Rightarrow> None | Some an \<Rightarrow> TokenDetails.logoUri (details an))
      \<and> truthy (TokenHolding.logoUri h)
    \<longrightarrow> headerLogo props a = TokenHolding.logoUri h)"
  by (auto simp: headerLogo_def js_or_def Let_def)

theorem headerLogo_merge_witness:
  "headerLogo
     (example_props ''So11111111111111111111111111111111111111112''
        (Some (example_holding ''So11111111111111111111111111111111111111112''
           (Some ''https://example.org/a.png''))))
     (Some (example_analytics ''So11111111111111111111111111111111111111112''
        (Some ''https://example.org/b.png'') (Fin 2) (Fin 0)))
     = Some SOL_LOGO_URI
   \<and> headerLogo
     (example_props ''mintA'' (Some (example_holding ''mintA'' (Some ''https://example.org/a.png''))))
     (Some (example_analytics ''mintA'' None (Fin 2) (Fin 0)))
     = Some ''https://example.org/a.png''"
proof -
  let ?sol = "''So11111111111111111111111111111111111111112''"
  let ?hs = "example_holding ?sol (Some ''https://example.org/a.png'')"
  let ?ha = "example_holding ''mintA'' (Some ''https://example.org/a.png'')"
  have 1: "headerLogo (example_props ?sol (Some ?hs))
             (Some (example_analytics ?sol (Some ''https://example.org/b.png'') (Fin 2) (Fin 0)))
           = Some SOL_LOGO_URI"
    using headerLogo_merge [of "example_props ?sol (Some ?hs)"
        "Some (example_analytics ?sol (Some ''https://example.org/b.png'') (Fin 2) (Fin 0))" ?hs]
    by (simp add: example_props_def example_holding_def)
  have 2: "headerLogo (example_props ''mintA'' (Some ?ha))
             (Some (example_analytics ''mintA'' None (Fin 2) (Fin 0)))
           = Some ''https://example.org/a.png''"
    using headerLogo_merge [of "example_props ''mintA'' (Some ?ha)"
        "Some (example_analytics ''mintA'' None (Fin 2) (Fin 0))" ?ha]
    by (simp add: truthy_def example_analytics_def example_props_def example_holding_def)
  from 1 2 show ?thesis by blast
qed

text \<open>
  The token is the reserved native-asset mint (as the \<open>tokenMint\<close> property and as the
  fetched record say), no existing record is passed, and the fetched record has a logo:
  the header shows the fetched logo, not the canonical URI.
\<close>

theorem headerLogo_native_counterexample:
  "headerLogo (example_props ''So11111111111111111111111111111111111111112'' None)
     (Some (example_analytics ''So11111111111111111111111111111111111111112''
        (Some ''https://example.org/b.png'') (Fin 2) (Fin 0)))
     = Some ''https://example.org/b.png''
   \<and> Some ''https://example.org/b.png'' \<noteq> Some SOL_LOGO_URI"
  by (simp add: headerLogo_def js_or_def truthy_def example_analytics_def example_props_def
      SOL_LOGO_URI_def)

text \<open>
  Claim C7. A liquidity of \<open>0\<close> is rendered as the label \<open>Failed to load\<close>, whatever the
  currency formatter would make of zero; a strictly positive liquidity is rendered as the
  formatter's text for it.
\<close>

theorem liquidity_zero_unavailable:
  "(liquidity td = Fin 0 \<longrightarrow> liquidity_field formatCurrency td = ''Failed to load'')
   \<and> (liquidity td = Fin x \<and> 0 < x \<longrightarrow> liquidity_field formatCurrency td = formatCurrency (Fin x))"
  by (simp add: liquidity_field_def)

theorem liquidity_zero_unavailable_witness:
  "liquidity_field (\<lambda>v. ''$0.00'') (example_trades (Fin 0) 0 0) = ''Failed to load''
   \<and> liquidity_field (\<lambda>v. ''formatted'') (example_trades (Fin 1500) 0 0) = ''formatted''"
  using liquidity_zero_unavailable [of "example_trades (Fin 0) 0 0" "\<lambda>v. ''$0.00''" 0]
        liquidity_zero_unavailable [of "example_trades (Fin 1500) 0 0" "\<lambda>v. ''formatted''" 1500]
  by (simp add: example_trades_def)

text \<open>
  Claim C9. When the provider call fails, whatever the error, the fetch ends with the
  one message \<open>Failed to load token data\<close>, the loading flag down and the analytics held
  before untouched; the content then shows the error with its Retry button. Invoking the
  same fetch again, with a provider that now answers, stores the record and clears the
  error.
\<close>

theorem fetch_failure:
  assumes "tokenMint props = Some m" and "m \<noteq> []"
    and "getTokenAnalytics m (existingTokenData props) = Inl err"
  shows "fetchTokenAnalytics getTokenAnalytics props s
           = s\<lparr>loading := False, error := Some ''Failed to load token data''\<rparr>
         \<and> analytics (fetchTokenAnalytics getTokenAnalytics props s) = analytics s
         \<and> content_view (fetchTokenAnalytics getTokenAnalytics props s)
             = ErrorRetry ''Failed to load token data''
         \<and> (\<forall>retry data. retry m (existingTokenData props) = Inr data \<longrightarrow>
               fetchTokenAnalytics retry props (fetchTokenAnalytics getTokenAnalytics props s)
                 = s\<lparr>loading := False, error := None, analytics := Some data\<rparr>)"
  using assms
  by (simp add: fetchTokenAnalytics_def fetch_settle_def fetch_begin_def content_view_def)

theorem fetch_failure_witness:
  "fetchTokenAnalytics (\<lambda>m h. Inl ''timeout'') (example_props ''mintA'' None)
       (initial_state\<lparr>analytics := Some (example_analytics ''mintA'' None (Fin 2) (Fin 0))\<rparr>)
     = initial_state\<lparr>analytics := Some (example_analytics ''mintA'' None (Fin 2) (Fin 0)),
                     error := Some ''Failed to load token data''\<rparr>
   \<and> fetchTokenAnalytics (\<lambda>m h. Inr (example_analytics ''mintA'' None (Fin 3) (Fin 0)))
       (example_props ''mintA'' None)
       (fetchTokenAnalytics (\<lambda>m h. Inl ''timeout'') (example_props ''mintA'' None)
          (initial_state\<lparr>analytics := Some (example_analytics ''mintA'' None (Fin 2) (Fin 0))\<rparr>))
     = initial_state\<lparr>analytics := Some (example_analytics ''mintA'' None (Fin 3) (Fin 0))\<rparr>"
proof -
  let ?p = "example_props ''mintA'' None"
  let ?fail = "(\<lambda>m h. Inl ''timeout'') :: string \<Rightarrow> TokenHolding option \<Rightarrow> string + TokenAnalytics"
  let ?s = "initial_state\<lparr>analytics := Some (example_analytics ''mintA'' None (Fin 2) (Fin 0))\<rparr>"
  have h1: "tokenMint ?p = Some ''mintA''" by (simp add: example_props_def)
  have h2: "''mintA'' \<noteq> []" by simp
  have h3: "?fail ''mintA'' (existingTokenData ?p) = Inl ''timeout''" by simp
  note f = fetch_failure [of ?p "''mintA''" ?fail "''timeout''" ?s, OF h1 h2 h3]
  from f have a: "fetchTokenAnalytics ?fail ?p ?s
                    = ?s\<lparr>loading := False, error := Some ''Failed to load token data''\<rparr>"
    by blast
  from f have r: "\<And>retry data. retry ''mintA'' (existingTokenData ?p) = Inr data \<Longrightarrow>
                    fetchTokenAnalytics retry ?p (fetchTokenAnalytics ?fail ?p ?s)
                      = ?s\<lparr>loading := False, error := None, analytics := Some data\<rparr>"
    by blast
  have b: "fetchTokenAnalytics (\<lambda>m h. Inr (example_analytics ''mintA'' None (Fin 3) (Fin 0)))
                     ?p (fetchTokenAnalytics ?fail ?p ?s)
                  = ?s\<lparr>loading := False, error := None,
                       analytics := Some (example_analytics ''mintA'' None (Fin 3) (Fin 0))\<rparr>"
    by (rule r) simp
  show ?thesis
    unfolding a [symmetric] using a b by (simp add: initial_state_def)
qed

text \<open>
  Claim C10. The Unique Wallets figure is computed from the trade counts: when the buy
  count or the sell count is positive, the field shows
  \<open>max (floor (0.3 * (buys24h + sells24h))) 50\<close>, which is \<open>3 * (buys24h + sells24h) div 10\<close>
  raised to \<open>50\<close> and so at least \<open>50\<close>; when both counts are zero it shows the label
  \<open>Failed to load\<close>.
\<close>

theorem uniqueWallets_synthesized:
  "(0 < buys24h td \<or> 0 < sells24h td \<longrightarrow>
      uniqueWallets_field toLocaleString td
        = toLocaleString (max \<lfloor>0.3 * real_of_int (buys24h td + sells24h td)\<rfloor> 50)
      \<and> max \<lfloor>0.3 * real_of_int (buys24h td + sells24h td)\<rfloor> 50
          = max ((3 * (buys24h td + sells24h td)) div 10) 50
      \<and> 50 \<le> max \<lfloor>0.3 * real_of_int (buys24h td + sells24h td)\<rfloor> 50)
   \<and> (buys24h td = 0 \<and> sells24h td = 0 \<longrightarrow>
      uniqueWallets_field toLocaleString td = ''Failed to load'')"
proof -
  have "\<lfloor>0.3 * real_of_int (buys24h td + sells24h td)\<rfloor> = (3 * (buys24h td + sells24h td)) div 10"
    using floor_three_tenths [of "buys24h td + sells24h td"] by (simp add: mult.commute)
  then show ?thesis
    by (simp add: uniqueWallets_field_def mult.commute)
qed

theorem uniqueWallets_synthesized_witness:
  "uniqueWallets_field (\<lambda>n. if n = 600 then ''600'' else ''other'') (example_trades (Fin 0) 1000 1001)
     = ''600''
   \<and> uniqueWallets_field (\<lambda>n. if n = 50 then ''50'' else ''other'') (example_trades (Fin 0) 0 7)
     = ''50''
   \<and> uniqueWallets_field (\<lambda>n. ''0'') (example_trades (Fin 0) 0 0) = ''Failed to load''"
proof -
  show ?thesis
    using uniqueWallets_synthesized [of "example_trades (Fin 0) 1000 1001"
            "\<lambda>n. if n = 600 then ''600'' else ''other''"]
          uniqueWallets_synthesized [of "example_trades (Fin 0) 0 7"
            "\<lambda>n. if n = 50 then ''50'' else ''other''"]
          uniqueWallets_synthesized [of "example_trades (Fin 0) 0 0" "\<lambda>n. ''0''"]
    by (simp add: example_trades_def)
qed

end
